theory Spec2Isabelle
  imports Complex_Main "HOL-Library.AList"
begin

section \<open>Python values, strings and dictionaries\<close>

text \<open>
  A Python \<open>str\<close> is the list of the bytes of its UTF-8 encoding, so that every string
  the program can hold has a value here; \<open>bytes\<close> is the list of its bytes. Equality,
  concatenation, \<open>startswith\<close>, \<open>in\<close>, \<open>split\<close> and \<open>join\<close> with the ASCII arguments the
  program gives them answer on the encoding as they do on the code points.
\<close>

type_synonym bytes = "char list"

datatype pyval = PNone | PBool bool | PStr string | PBytes bytes

text \<open>A result dictionary, in insertion order, as Python keeps it.\<close>

type_synonym pydict = "(string \<times> pyval) list"

fun truthy :: "pyval \<Rightarrow> bool" where
  "truthy PNone = False"
| "truthy (PBool b) = b"
| "truthy (PStr s) = (s \<noteq> [])"
| "truthy (PBytes b) = (b \<noteq> [])"

text \<open>\<open>d.get(k)\<close>, \<open>d.get(k, default)\<close> and \<open>k in d\<close>.\<close>

definition dget :: "pydict \<Rightarrow> string \<Rightarrow> pyval" where
  "dget d k = (case map_of d k of None \<Rightarrow> PNone | Some v \<Rightarrow> v)"

definition dget_default :: "pydict \<Rightarrow> string \<Rightarrow> pyval \<Rightarrow> pyval" where
  "dget_default d k v0 = (case map_of d k of None \<Rightarrow> v0 | Some v \<Rightarrow> v)"

definition has_key :: "pydict \<Rightarrow> string \<Rightarrow> bool" where
  "has_key d k = (map_of d k \<noteq> None)"

text \<open>
  \<open>str.lower\<close> and \<open>str.strip\<close> are methods of the interpreter. What they do to a string
  is decided by its Unicode tables (cased letters beyond ASCII are lowercased, the
  no-break space and the other Unicode blanks are trimmed), which are no part of the
  program. They are therefore parameters of the model: the two fields of \<open>python_str\<close>,
  named as the methods are. Nothing is assumed of them but what a theorem states.
\<close>

record python_str =
  lower :: "string \<Rightarrow> string"
  strip :: "string \<Rightarrow> string"

text \<open>
  The two methods on ASCII text: \<open>A\<close>..\<open>Z\<close> become \<open>a\<close>..\<open>z\<close>, and the whitespace trimmed
  is the ASCII whitespace of \<open>str.isspace\<close> (codes 9 to 13, 28 to 31 and 32).
  \<open>ascii_python\<close> is there to run the model on ASCII strings, on which it is what the
  interpreter does; it says nothing of other strings.
\<close>

definition lower_char :: "char \<Rightarrow> char" where
  "lower_char c =
     (case map_of (zip ''ABCDEFGHIJKLMNOPQRSTUVWXYZ'' ''abcdefghijklmnopqrstuvwxyz'') c of
        None \<Rightarrow> c
      | Some l \<Rightarrow> l)"

definition ascii_lower :: "string \<Rightarrow> string" where
  "ascii_lower s = map lower_char s"

definition is_space :: "char \<Rightarrow> bool" where
  "is_space c = (c \<in> set [CHR 0x09, CHR 0x0A, CHR 0x0B, CHR 0x0C, CHR 0x0D,
                            CHR 0x1C, CHR 0x1D, CHR 0x1E, CHR 0x1F, CHR 0x20])"

definition ascii_strip :: "string \<Rightarrow> string" where
  "ascii_strip s = rev (dropWhile is_space (rev (dropWhile is_space s)))"

definition ascii_python :: python_str where
  "ascii_python = \<lparr>lower = ascii_lower, strip = ascii_strip\<rparr>"

definition startswith :: "char list \<Rightarrow> char list \<Rightarrow> bool" where
  "startswith s p = (take (length p) s = p)"

text \<open>\<open>s[a:b]\<close> for \<open>0 \<le> a \<le> b\<close>: never out of range, it returns what is there.\<close>

definition slice :: "char list \<Rightarrow> nat \<Rightarrow> nat \<Rightarrow> char list" where
  "slice s a b = take (b - a) (drop a s)"

text \<open>\<open>s.split(sep)\<close> for a one-character separator: the empty string gives \<open>['']\<close>.\<close>

fun split_on :: "char \<Rightarrow> string \<Rightarrow> string list" where
  "split_on sep [] = [[]]"
| "split_on sep (c # cs) =
     (if c = sep then [] # split_on sep cs
      else (case split_on sep cs of
              [] \<Rightarrow> [[c]]
            | p # ps \<Rightarrow> (c # p) # ps))"

text \<open>\<open>sep.join(parts)\<close>.\<close>

fun join :: "string \<Rightarrow> string list \<Rightarrow> string" where
  "join sep [] = []"
| "join sep [p] = p"
| "join sep (p # q # ps) = p @ sep @ join sep (q # ps)"

text \<open>\<open>needle in s\<close> on strings.\<close>

fun contains :: "string \<Rightarrow> string \<Rightarrow> bool" where
  "contains [] needle = (needle = [])"
| "contains (c # cs) needle = (startswith (c # cs) needle \<or> contains cs needle)"


section \<open>Data lookup (data\_handler.py)\<close>

text \<open>
  An entry of \<open>countries.json\<close> or \<open>us-states.json\<close>: a dictionary with the keys
  \<open>name\<close> and \<open>capital\<close> (\<open>List[Dict[str, str]]\<close>). The two tables are the fields of
  \<open>DataHandler\<close>; the JSON files are not part of the sources, so the tables are arbitrary.
\<close>

record entry =
  name :: string
  capital :: string

record data_handler =
  countries :: "entry list"
  states :: "entry list"

text \<open>
  The loop of \<open>find_country_capital\<close> and of \<open>find_state_capital\<close>: the first entry whose
  lowercased name equals the normalised query decides. The query is lowercased and then
  trimmed (\<open>country_name.lower().strip()\<close>); the name of an entry is lowercased only.
\<close>

fun first_match :: "python_str \<Rightarrow> entry list \<Rightarrow> string \<Rightarrow> string option" where
  "first_match py [] q = None"
| "first_match py (e # es) q =
     (if lower py (name e) = q then Some (capital e) else first_match py es q)"

definition find_country_capital :: "python_str \<Rightarrow> data_handler \<Rightarrow> string \<Rightarrow> string option" where
  "find_country_capital py dh country_name =
     (let country_name_lower = strip py (lower py country_name)
      in first_match py (countries dh) country_name_lower)"

definition find_state_capital :: "python_str \<Rightarrow> data_handler \<Rightarrow> string \<Rightarrow> string option" where
  "find_state_capital py dh state_name =
     (let state_name_lower = strip py (lower py state_name)
      in first_match py (states dh) state_name_lower)"

text \<open>\<open>if capital:\<close> on an \<open>Optional[str]\<close>: \<open>None\<close> and the empty string are both false.\<close>

fun truthy_opt :: "string option \<Rightarrow> bool" where
  "truthy_opt None = False"
| "truthy_opt (Some s) = (s \<noteq> [])"

definition find_capital :: "python_str \<Rightarrow> data_handler \<Rightarrow> string \<Rightarrow> string option" where
  "find_capital py dh query =
     (let capital1 = find_country_capital py dh query in
      if truthy_opt capital1 then capital1
      else (let capital2 = find_state_capital py dh query in
            if truthy_opt capital2 then capital2 else None))"


section \<open>Intent parsing (bedrock\_client.py)\<close>

text \<open>
  \<open>_parse_intent_response\<close> (the leading underscore is dropped: a name cannot start
  with one). Every operation of the body is total on strings, and \<open>parts[1]\<close> is read
  only when there are at least three parts.
\<close>

definition not_capital_query :: pydict where
  "not_capital_query =
     [(''is_capital_query'', PBool False), (''entity'', PNone), (''error'', PNone)]"

definition parse_intent_response :: "python_str \<Rightarrow> string \<Rightarrow> pydict" where
  "parse_intent_response py response0 =
     (let response = strip py response0 in
      if startswith response ''CAPITAL_QUERY:'' then
        (let parts = split_on (CHR '':'') response in
         if 3 \<le> length parts then
           (let query_type = parts ! 1;
                entity = join '':'' (drop 2 parts)
            in [(''is_capital_query'', PBool True),
                (''query_type'', PStr query_type),
                (''entity'', PStr (strip py entity)),
                (''error'', PNone)])
         else not_capital_query)
      else not_capital_query)"


section \<open>Audio format detection (audio\_converter.py)\<close>

text \<open>
  \<open>AudioConverter.detect_audio_format\<close>. \<open>startswith\<close>, the slice \<open>audio_data[8:12]\<close> and
  the comparisons cannot raise on bytes, so the \<open>except\<close> branch (which also returns
  \<open>"webm"\<close>) is never taken and the function is a chain of tests.
\<close>

definition detect_audio_format :: "bytes \<Rightarrow> string" where
  "detect_audio_format audio_data =
     (if startswith audio_data ''RIFF'' \<and> slice audio_data 8 12 = ''WAVE'' then ''wav''
      else if startswith audio_data ''ID3'' \<or> startswith audio_data [CHR 0xFF, CHR 0xFB]
        then ''mp3''
      else if startswith audio_data [CHR 0x1A, CHR 0x45, CHR 0xDF, CHR 0xA3] then ''webm''
      else if startswith audio_data ''OggS'' then ''ogg''
      else ''webm'')"


section \<open>Transcription orchestrator (transcribe\_client.py)\<close>

text \<open>
  The calls the orchestrator makes on its collaborators, in the order made. The log is
  part of the state, so that a theorem can say which backend was invoked.
\<close>

datatype call =
    ConvertToPcm | StartStreaming | Sleep | StopLive | EndStream
  | TempFile | S3Upload | StartJob | GetJob | PollSleep | FetchTranscript | S3Delete | Unlink

text \<open>The two callbacks handed to the streaming client.\<close>

datatype callback = OnTranscription string | OnError string

text \<open>
  One answer of \<open>get_transcription_job\<close>: the call raises, the job is still running, it is
  \<open>COMPLETED\<close> (with what downloading and parsing the transcript gives: an exception
  message or the text), or it is \<open>FAILED\<close> (with its \<open>FailureReason\<close>, when present).
\<close>

datatype job_poll =
    PollRaises string
  | InProgress
  | Completed "string + string"
  | Failed "string option"

text \<open>
  \<open>Config\<close> and the answers of the services outside the program. An exception is the
  string \<open>str(e)\<close>; \<open>Some e\<close> in an \<open>option\<close> field and \<open>Inl e\<close> in a sum mean that the
  call raises \<open>e\<close>. \<open>streaming_client_start\<close> is the awaited call
  \<open>streaming_client.start_streaming_transcription\<close> for the given PCM bytes: \<open>None\<close> when
  the call does not return (it sends the audio and then reads the events of the session
  until the service closes the stream, with no bound on either), else the exception it
  raises or the callbacks fired while it ran, in order, with the dictionary returned.
  \<open>clock_start\<close> is the reading of \<open>time.time()\<close> before the wait loop, taken after that
  call has returned; each element of \<open>ticks\<close> is one turn of the loop: the reading of
  \<open>time.time()\<close> in that turn and the callback, if any, that fires during the
  \<open>asyncio.sleep(0.1)\<close> after it.
\<close>

record world =
  aws_access_key_id :: "string option"
  aws_secret_access_key :: "string option"
  enable_streaming_fallback :: bool
  streaming_timeout :: int
  external_convert :: "bytes \<Rightarrow> string \<Rightarrow> bytes option"
  streaming_client_start :: "bytes \<Rightarrow> (string + (callback list \<times> pydict)) option"
  clock_start :: real
  ticks :: "(real \<times> callback option) list"
  end_stream :: "string option"
  tempfile_create :: "string option"
  upload_file :: "string option"
  start_transcription_job :: "string option"
  polls :: "job_poll list"
  unlink :: "string option"

text \<open>
  The attributes of a \<open>TranscribeClient\<close> (and of its \<open>StreamingTranscribeClient\<close>) that
  the modelled methods read or write, and the call log.
\<close>

record tc_state =
  current_transcription_mode :: string
  active_stream :: bool
  calls :: "call list"

definition log :: "call \<Rightarrow> tc_state \<Rightarrow> tc_state" where
  "log c st = st\<lparr>calls := calls st @ [c]\<rparr>"

definition has_credentials :: "world \<Rightarrow> bool" where
  "has_credentials w =
     (\<not> (\<not> truthy_opt (aws_access_key_id w) \<or> \<not> truthy_opt (aws_secret_access_key w)))"

text \<open>The failure dictionary every path of the client builds.\<close>

definition failure_result :: "pyval \<Rightarrow> pydict" where
  "failure_result err =
     [(''success'', PBool False), (''error'', err), (''transcription'', PNone)]"

subsection \<open>The streaming client (streaming\_transcribe\_client.py)\<close>

text \<open>
  \<open>StreamingTranscribeClient.start_streaming_transcription\<close>: opening the stream may
  raise; then \<open>process_audio\<close> and the event handler run to their end and fire the
  callbacks; an exception of either is caught by the method itself.
\<close>

record stream_session =
  open_stream :: "string option"
  fired :: "callback list"
  gather_raises :: "string option"
  session_id :: string

definition start_streaming_transcription :: "stream_session \<Rightarrow> callback list \<times> pydict" where
  "start_streaming_transcription s =
     (case open_stream s of
        Some e \<Rightarrow> ([], [(''success'', PBool False), (''error'', PStr e)])
      | None \<Rightarrow>
          (case gather_raises s of
             Some e \<Rightarrow> (fired s, [(''success'', PBool False), (''error'', PStr e)])
           | None \<Rightarrow>
               (fired s,
                [(''success'', PBool True),
                 (''message'', PStr ''Streaming transcription completed''),
                 (''session_id'', PStr (session_id s))])))"

text \<open>
  \<open>StreamingTranscribeClient.stop_live_transcription\<close>: it ends the stream that
  \<open>start_live_transcription\<close> stored, when there is one, and catches every exception.
\<close>

definition stop_live_transcription :: "world \<Rightarrow> tc_state \<Rightarrow> pydict \<times> tc_state" where
  "stop_live_transcription w st0 =
     (let st = log StopLive st0 in
      if active_stream st then
        (case end_stream w of
           Some e \<Rightarrow> ([(''success'', PBool False), (''error'', PStr e)], log EndStream st)
         | None \<Rightarrow>
             ([(''success'', PBool True), (''message'', PStr ''Live transcription session stopped'')],
              (log EndStream st)\<lparr>active_stream := False\<rparr>))
      else ([(''success'', PBool False), (''error'', PStr ''No active session to stop'')], st))"

subsection \<open>Conversion to PCM (audio\_converter.py)\<close>

text \<open>
  \<open>AudioConverter.convert_to_pcm\<close>: a WAV file longer than its 44-byte header is cut
  after the header; everything else goes to pydub and ffmpeg (\<open>external_convert\<close>). The
  method catches every exception and returns \<open>None\<close> then.
\<close>

definition convert_to_pcm :: "world \<Rightarrow> bytes \<Rightarrow> string \<Rightarrow> bytes option" where
  "convert_to_pcm w audio_data input_format =
     (if input_format = ''wav'' \<and> startswith audio_data ''RIFF'' \<and> 44 < length audio_data
      then Some (drop 44 audio_data)
      else external_convert w audio_data input_format)"

subsection \<open>The bucket path\<close>

definition test_transcription :: string where
  "test_transcription =
     ''This is a test transcription. Please configure AWS credentials for real transcription.''"

text \<open>The inner \<open>except\<close> of \<open>_transcribe_audio\<close>: the exception becomes the returned text.\<close>

definition transcription_error_message :: "string \<Rightarrow> string" where
  "transcription_error_message e =
     (if contains e ''NoSuchBucket''
        then ''S3 bucket not found. Please create the bucket or check configuration.''
      else if contains e ''AccessDenied''
        then ''Access denied. Please check AWS credentials and permissions.''
      else ''Transcription failed: '' @ e)"

text \<open>
  The polling loop \<open>while True\<close>. It ends when a poll raises or the job is completed or
  failed; when the listed polls run out with the job still running the loop has not
  returned, which is \<open>None\<close>. \<open>Inl e\<close> is an exception leaving the loop.
\<close>

fun poll_loop :: "job_poll list \<Rightarrow> tc_state \<Rightarrow> ((string + string) \<times> tc_state) option" where
  "poll_loop [] st = None"
| "poll_loop (p # ps) st =
     (case p of
        PollRaises e \<Rightarrow> Some (Inl e, log GetJob st)
      | InProgress \<Rightarrow> poll_loop ps (log PollSleep (log GetJob st))
      | Completed fetched \<Rightarrow>
          (case fetched of
             Inl e \<Rightarrow> Some (Inl e, log FetchTranscript (log GetJob st))
           | Inr transcription \<Rightarrow>
               Some (Inr transcription, log S3Delete (log FetchTranscript (log GetJob st))))
      | Failed reason \<Rightarrow>
          Some (Inl (''Transcription job failed: '' @
                     (case reason of None \<Rightarrow> ''Unknown error'' | Some m \<Rightarrow> m)),
                log GetJob st))"

text \<open>
  \<open>_transcribe_audio\<close>. The temporary file is written first (a failure there reaches the
  outer \<open>except\<close>, which raises again). Without credentials the test sentence is
  returned. Every exception of the upload, of the job submission and of the polling loop
  is caught by the inner \<open>except\<close> and returned as text. The \<open>finally\<close> block removes the
  temporary file; an exception of it replaces the returned value.
\<close>

definition transcribe_audio ::
  "world \<Rightarrow> tc_state \<Rightarrow> bytes \<Rightarrow> ((string + string) \<times> tc_state) option" where
  "transcribe_audio w st audio_data =
     (case tempfile_create w of
        Some e \<Rightarrow> Some (Inl e, log TempFile st)
      | None \<Rightarrow>
          (let st1 = log TempFile st;
               body =
                 (if \<not> has_credentials w then Some (Inr test_transcription, st1)
                  else
                    (case upload_file w of
                       Some e \<Rightarrow> Some (Inr (transcription_error_message e), log S3Upload st1)
                     | None \<Rightarrow>
                         (case start_transcription_job w of
                            Some e \<Rightarrow>
                              Some (Inr (transcription_error_message e),
                                    log StartJob (log S3Upload st1))
                          | None \<Rightarrow>
                              (case poll_loop (polls w) (log StartJob (log S3Upload st1)) of
                                 None \<Rightarrow> None
                               | Some (Inl e, st2) \<Rightarrow>
                                   Some (Inr (transcription_error_message e), st2)
                               | Some (Inr transcription, st2) \<Rightarrow>
                                   Some (Inr transcription, st2)))))
           in case body of
                None \<Rightarrow> None
              | Some (r, st3) \<Rightarrow>
                  (case unlink w of
                     Some e \<Rightarrow> Some (Inl e, log Unlink st3)
                   | None \<Rightarrow> Some (r, log Unlink st3))))"

text \<open>\<open>_transcribe_audio_bucket\<close>.\<close>

definition transcribe_audio_bucket ::
  "world \<Rightarrow> tc_state \<Rightarrow> bytes \<Rightarrow> (pydict \<times> tc_state) option" where
  "transcribe_audio_bucket w st audio_data =
     (case transcribe_audio w st audio_data of
        None \<Rightarrow> None
      | Some (Inr transcription_result, st') \<Rightarrow>
          Some ([(''success'', PBool True),
                 (''transcription'', PStr transcription_result),
                 (''note'', PStr ''Bucket-based transcription completed.'')], st')
      | Some (Inl e, st') \<Rightarrow> Some (failure_result (PStr e), st'))"

subsection \<open>The streaming path\<close>

text \<open>The dictionary \<open>transcription_result\<close> and the two callbacks that write it.\<close>

definition transcription_result_init :: pydict where
  "transcription_result_init = [(''text'', PStr []), (''completed'', PBool False)]"

fun fire :: "pydict \<Rightarrow> callback \<Rightarrow> pydict" where
  "fire d (OnTranscription t) =
     AList.update ''completed'' (PBool True) (AList.update ''text'' (PStr t) d)"
| "fire d (OnError e) =
     AList.update ''completed'' (PBool True) (AList.update ''error'' (PStr e) d)"

datatype wait_outcome = Callback_completed pydict | Timed_out

text \<open>
  The loop \<open>while not transcription_result["completed"]\<close>: each turn reads the clock,
  leaves when more than the timeout has passed, and sleeps otherwise. When the listed
  turns run out with nothing completed the loop has not returned (\<open>None\<close>).
\<close>

fun wait_loop ::
  "int \<Rightarrow> real \<Rightarrow> pydict \<Rightarrow> (real \<times> callback option) list \<Rightarrow> tc_state
     \<Rightarrow> (wait_outcome \<times> tc_state) option" where
  "wait_loop timeout t0 d [] st =
     (if truthy (dget d ''completed'') then Some (Callback_completed d, st) else None)"
| "wait_loop timeout t0 d ((now, ev) # rest) st =
     (if truthy (dget d ''completed'') then Some (Callback_completed d, st)
      else if now - t0 > real_of_int timeout then Some (Timed_out, st)
      else wait_loop timeout t0
             (case ev of None \<Rightarrow> d | Some cb \<Rightarrow> fire d cb) rest (log Sleep st))"

text \<open>
  \<open>_transcribe_audio_streaming\<close>. The call of the streaming client is awaited before
  \<open>start_time\<close> is read: while it has not returned, the method has not returned either
  (\<open>None\<close>). \<open>Inl e\<close> of the streaming client is an exception raised inside the \<open>try\<close>,
  which the \<open>except\<close> branch handles. Every failure branch tests
  \<open>ENABLE_STREAMING_FALLBACK\<close> on its own, as in the source. \<open>not pcm_audio\<close> holds for
  \<open>None\<close> and for empty bytes alike.
\<close>

definition transcribe_audio_streaming ::
  "world \<Rightarrow> tc_state \<Rightarrow> bytes \<Rightarrow> (pydict \<times> tc_state) option" where
  "transcribe_audio_streaming w st audio_data =
     (if \<not> has_credentials w then
        (if enable_streaming_fallback w then transcribe_audio_bucket w st audio_data
         else Some (failure_result (PStr ''AWS credentials not configured''), st))
      else
        (let audio_format = detect_audio_format audio_data;
             pcm_audio = convert_to_pcm w audio_data audio_format;
             st1 = log ConvertToPcm st
         in case (if pcm_audio = Some [] then None else pcm_audio) of
              None \<Rightarrow>
                (if enable_streaming_fallback w then transcribe_audio_bucket w st1 audio_data
                 else Some (failure_result (PStr ''Failed to convert audio to PCM format''), st1))
            | Some pcm \<Rightarrow>
              (case streaming_client_start w pcm of
                 None \<Rightarrow> None
               | Some (Inl e) \<Rightarrow>
                   (if enable_streaming_fallback w
                    then transcribe_audio_bucket w (log StartStreaming st1) audio_data
                    else Some (failure_result (PStr e), log StartStreaming st1))
               | Some (Inr (cbs, stream_result)) \<Rightarrow>
                   (let st2 = log StartStreaming st1;
                        transcription_result = foldl fire transcription_result_init cbs
                    in if \<not> truthy (dget stream_result ''success'') then
                         (if enable_streaming_fallback w
                          then transcribe_audio_bucket w st2 audio_data
                          else Some (failure_result
                                       (dget_default stream_result ''error''
                                          (PStr ''Streaming transcription failed'')), st2))
                       else
                         (case wait_loop (streaming_timeout w) (clock_start w)
                                 transcription_result (ticks w) st2 of
                            None \<Rightarrow> None
                          | Some (Timed_out, st3) \<Rightarrow>
                              (let st4 = snd (stop_live_transcription w st3)
                               in if enable_streaming_fallback w
                                  then transcribe_audio_bucket w st4 audio_data
                                  else Some (failure_result
                                               (PStr ''Streaming transcription timeout''), st4))
                          | Some (Callback_completed d, st3) \<Rightarrow>
                              (let st4 = snd (stop_live_transcription w st3)
                               in if has_key d ''error'' then
                                    (if enable_streaming_fallback w
                                     then transcribe_audio_bucket w st4 audio_data
                                     else Some (failure_result (dget d ''error''), st4))
                                  else
                                    Some ([(''success'', PBool True),
                                           (''transcription'', dget d ''text''),
                                           (''note'', PStr
                                              ''Streaming transcription completed successfully.'')],
                                          st4)))))))"

text \<open>
  \<open>transcribe_audio_bytes\<close>. Neither path raises, so the \<open>except\<close> branch of this
  method is not reached.
\<close>

definition transcribe_audio_bytes ::
  "world \<Rightarrow> tc_state \<Rightarrow> bytes \<Rightarrow> (pydict \<times> tc_state) option" where
  "transcribe_audio_bytes w st audio_data =
     (if length audio_data < 100 then
        Some ([(''success'', PBool False),
               (''error'', PStr ''Audio data too small or invalid''),
               (''transcription'', PNone)], st)
      else if current_transcription_mode st = ''streaming'' then
        transcribe_audio_streaming w st audio_data
      else transcribe_audio_bucket w st audio_data)"


section \<open>Coordinator (voice\_agent.py)\<close>

text \<open>The stages a request goes through, logged in the order they are invoked.\<close>

datatype stage = Transcribe | AnalyzeIntent | FindCapital | GenerateResponse | SynthesizeSpeech

text \<open>
  A \<open>VoiceAgent\<close> with its collaborators. \<open>transcribe\<close> is
  \<open>transcribe_client.transcribe_audio_bytes\<close> (\<open>Inl e\<close>: it raises), \<open>invoke_intent_model\<close>
  and \<open>invoke_response_model\<close> are the two Bedrock calls with the text they produce, and
  \<open>polly_synthesize\<close> is the Polly call with the audio it produces.
\<close>

record voice_agent =
  transcribe :: "bytes \<Rightarrow> string + pydict"
  invoke_intent_model :: "string \<Rightarrow> string + string"
  invoke_response_model :: "string \<Rightarrow> string \<Rightarrow> string \<Rightarrow> string + string"
  handler :: data_handler
  polly_synthesize :: "string \<Rightarrow> string + bytes"

text \<open>\<open>BedrockClient.analyze_intent\<close>.\<close>

definition analyze_intent :: "python_str \<Rightarrow> voice_agent \<Rightarrow> string \<Rightarrow> pydict" where
  "analyze_intent py ag user_text =
     (case invoke_intent_model ag user_text of
        Inl e \<Rightarrow> [(''is_capital_query'', PBool False), (''entity'', PNone), (''error'', PStr e)]
      | Inr completion \<Rightarrow> parse_intent_response py completion)"

text \<open>\<open>BedrockClient.generate_response\<close>: the templated sentence when the call fails.\<close>

definition generate_response ::
  "python_str \<Rightarrow> voice_agent \<Rightarrow> string \<Rightarrow> string \<Rightarrow> string \<Rightarrow> string" where
  "generate_response py ag query_type entity capital_name =
     (case invoke_response_model ag query_type entity capital_name of
        Inl e \<Rightarrow> ''The capital of '' @ entity @ '' is '' @ capital_name @ ''.''
      | Inr completion \<Rightarrow> strip py completion)"

text \<open>\<open>PollyClient.synthesize_speech_bytes\<close>.\<close>

definition synthesize_speech_bytes :: "voice_agent \<Rightarrow> string \<Rightarrow> pydict" where
  "synthesize_speech_bytes ag response_text =
     (case polly_synthesize ag response_text of
        Inl e \<Rightarrow> [(''success'', PBool False), (''error'', PStr e), (''audio_bytes'', PNone)]
      | Inr audio \<Rightarrow>
          [(''success'', PBool True), (''audio_bytes'', PBytes audio),
           (''voice_id'', PStr ''Joanna''), (''text'', PStr response_text)])"

text \<open>
  \<open>process_text_input\<close>. The intent dictionary comes from \<open>analyze_intent\<close>, whose
  \<open>entity\<close> and \<open>query_type\<close> are strings whenever \<open>is_capital_query\<close> is true; a value of
  another type there would raise in \<open>find_capital\<close> or \<open>generate_response\<close> and reach the
  \<open>except\<close> branch, which is the last case below.
\<close>

definition text_exception_result :: "string \<Rightarrow> pydict" where
  "text_exception_result e =
     [(''response'', PStr ''I'm sorry, I encountered an error processing your request.''),
      (''success'', PBool False),
      (''error'', PStr e)]"

definition process_text_input ::
  "python_str \<Rightarrow> voice_agent \<Rightarrow> string \<Rightarrow> pydict \<times> stage list" where
  "process_text_input py ag user_text =
     (let intent_result = analyze_intent py ag user_text in
      if truthy (dget intent_result ''error'') then
        ([(''response'', PStr ''I'm sorry, I'm having trouble processing your request right now.''),
          (''success'', PBool False),
          (''error'', dget intent_result ''error'')], [AnalyzeIntent])
      else if truthy (dget intent_result ''is_capital_query'') then
        (let entity = dget intent_result ''entity'';
             query_type = dget intent_result ''query_type''
         in if truthy entity then
              (case (entity, query_type) of
                 (PStr ent, PStr qt) \<Rightarrow>
                   (let capital_found = find_capital py (handler ag) ent in
                    case capital_found of
                      None \<Rightarrow>
                        ([(''response'', PStr (''I'm sorry, I don't have information about the capital of ''
                                               @ ent @ ''.'')),
                          (''success'', PBool True),
                          (''query_type'', query_type),
                          (''entity'', entity),
                          (''capital'', PNone)], [AnalyzeIntent, FindCapital])
                    | Some cap \<Rightarrow>
                        ([(''response'', PStr (generate_response py ag qt ent cap)),
                          (''success'', PBool True),
                          (''query_type'', query_type),
                          (''entity'', entity),
                          (''capital'', PStr cap)], [AnalyzeIntent, FindCapital, GenerateResponse]))
               | _ \<Rightarrow> (text_exception_result ''AttributeError'', [AnalyzeIntent]))
            else
              ([(''response'', PStr ''I'm sorry, I couldn't understand which country or state you're asking about.''),
                (''success'', PBool True),
                (''query_type'', PStr ''unknown''),
                (''entity'', PNone),
                (''capital'', PNone)], [AnalyzeIntent]))
      else
        ([(''response'', PStr ''I'm sorry, but I can only provide information about country and state capitals. For other questions, this information is not available.''),
          (''success'', PBool True),
          (''query_type'', PStr ''other''),
          (''entity'', PNone),
          (''capital'', PNone)], [AnalyzeIntent]))"

text \<open>
  \<open>process_voice_input\<close>. The transcription of a successful result is the text the
  transcribe client returns; a truthy value that is not a string could not be sent to the
  text flow and is treated as the exception it would cause.
\<close>

definition voice_exception_result :: "string \<Rightarrow> pydict" where
  "voice_exception_result e =
     [(''response'', PStr ''I'm sorry, I encountered an error processing your voice input.''),
      (''success'', PBool False),
      (''error'', PStr e)]"

definition process_voice_input ::
  "python_str \<Rightarrow> voice_agent \<Rightarrow> bytes \<Rightarrow> pydict \<times> stage list" where
  "process_voice_input py ag audio_data =
     (case transcribe ag audio_data of
        Inl e \<Rightarrow> (voice_exception_result e, [Transcribe])
      | Inr transcribe_result \<Rightarrow>
          if \<not> truthy (dget transcribe_result ''success'') then
            ([(''response'', PStr ''I'm sorry, I couldn't understand your voice input.''),
              (''success'', PBool False),
              (''error'', dget_default transcribe_result ''error'' (PStr ''Transcription failed''))],
             [Transcribe])
          else
            (let transcribed_text = dget transcribe_result ''transcription'' in
             if \<not> truthy transcribed_text then
               ([(''response'', PStr ''I'm sorry, I couldn't transcribe your voice input.''),
                 (''success'', PBool False),
                 (''error'', PStr ''No transcription result'')], [Transcribe])
             else
               (case transcribed_text of
                  PStr spoken \<Rightarrow>
                    (let (text_result, stages) = process_text_input py ag spoken in
                     if \<not> truthy (dget text_result ''success'') then
                       (text_result, Transcribe # stages)
                     else
                       (let response_text =
                              dget_default text_result ''response''
                                (PStr ''I'm sorry, I couldn't process your request.'');
                            polly_result =
                              synthesize_speech_bytes ag
                                (case response_text of PStr r \<Rightarrow> r | _ \<Rightarrow> [])
                        in if \<not> truthy (dget polly_result ''success'') then
                             ([(''response'', response_text),
                               (''success'', PBool True),
                               (''audio_bytes'', PNone),
                               (''error'', PStr ''Speech synthesis failed'')],
                              Transcribe # stages @ [SynthesizeSpeech])
                           else
                             ([(''response'', response_text),
                               (''success'', PBool True),
                               (''audio_bytes'', dget polly_result ''audio_bytes''),
                               (''transcribed_text'', transcribed_text),
                               (''query_type'', dget text_result ''query_type''),
                               (''entity'', dget text_result ''entity''),
                               (''capital'', dget text_result ''capital'')],
                              Transcribe # stages @ [SynthesizeSpeech])))
                | _ \<Rightarrow> (voice_exception_result ''TypeError'', [Transcribe]))))"


section \<open>Properties of the string operations on ASCII text\<close>

lemma lower_char_cases:
  "lower_char c = c \<or>
   (c \<in> set ''ABCDEFGHIJKLMNOPQRSTUVWXYZ'' \<and> lower_char c \<in> set ''abcdefghijklmnopqrstuvwxyz'')"
  by (simp add: lower_char_def)

lemma lowercase_fixed_all:
  "list_all (\<lambda>c. lower_char c = c \<and> \<not> is_space c) ''abcdefghijklmnopqrstuvwxyz''"
  by (simp add: lower_char_def is_space_def)

lemma uppercase_not_space_all: "list_all (\<lambda>c. \<not> is_space c) ''ABCDEFGHIJKLMNOPQRSTUVWXYZ''"
  by (simp add: is_space_def)

lemma lower_char_fixed:
  "c \<in> set ''abcdefghijklmnopqrstuvwxyz'' \<Longrightarrow> lower_char c = c \<and> \<not> is_space c"
  using lowercase_fixed_all unfolding list_all_iff by blast

lemma upper_not_space: "c \<in> set ''ABCDEFGHIJKLMNOPQRSTUVWXYZ'' \<Longrightarrow> \<not> is_space c"
  using uppercase_not_space_all unfolding list_all_iff by blast

lemma lower_char_space: "is_space c \<Longrightarrow> lower_char c = c"
  using lower_char_cases [of c] upper_not_space [of c] by blast

lemma lower_char_idem: "lower_char (lower_char c) = lower_char c"
proof (cases "lower_char c = c")
  case True
  then show ?thesis by simp
next
  case False
  then have "lower_char c \<in> set ''abcdefghijklmnopqrstuvwxyz''"
    using lower_char_cases [of c] by blast
  then show ?thesis
    using lower_char_fixed by blast
qed

text \<open>Lowercasing twice is lowercasing once.\<close>

lemma ascii_lower_idem: "ascii_lower (ascii_lower s) = ascii_lower s"
  by (simp add: ascii_lower_def lower_char_idem)

text \<open>A string is trimmed to nothing exactly when it is made of whitespace.\<close>

lemma ascii_strip_empty: "ascii_strip l = [] \<longleftrightarrow> (\<forall>c\<in>set l. is_space c)"
proof
  assume "ascii_strip l = []"
  then have all: "\<forall>c\<in>set (dropWhile is_space l). is_space c"
    by (simp add: ascii_strip_def dropWhile_eq_Nil_conv)
  have "dropWhile is_space l = []"
  proof (rule ccontr)
    assume ne: "dropWhile is_space l \<noteq> []"
    then have "\<not> is_space (hd (dropWhile is_space l))"
      by (rule hd_dropWhile)
    moreover have "hd (dropWhile is_space l) \<in> set (dropWhile is_space l)"
      using ne by (rule hd_in_set)
    ultimately show False
      using all by blast
  qed
  then show "\<forall>c\<in>set l. is_space c"
    by (simp add: dropWhile_eq_Nil_conv)
next
  assume "\<forall>c\<in>set l. is_space c"
  then have d: "dropWhile is_space l = []"
    by (simp add: dropWhile_eq_Nil_conv)
  show "ascii_strip l = []"
    unfolding ascii_strip_def d by simp
qed

text \<open>Whitespace has no case.\<close>

lemma ascii_lower_space: "\<forall>c\<in>set l. is_space c \<Longrightarrow> ascii_lower l = l"
  by (induction l) (simp_all add: ascii_lower_def lower_char_space)

lemma ascii_lower_pad:
  assumes "\<forall>c\<in>set l. is_space c" "\<forall>c\<in>set r. is_space c"
  shows "ascii_lower (l @ s @ r) = l @ ascii_lower s @ r"
proof -
  have "ascii_lower (l @ s @ r) = ascii_lower l @ ascii_lower s @ ascii_lower r"
    by (simp add: ascii_lower_def)
  then show ?thesis
    by (simp only: ascii_lower_space [OF assms(1)] ascii_lower_space [OF assms(2)])
qed

lemma dropWhile_all_space:
  "\<forall>c\<in>set l. is_space c \<Longrightarrow> dropWhile is_space (l @ s) = dropWhile is_space s"
  by (induction l) simp_all

text \<open>Whitespace in front and behind is trimmed away.\<close>

lemma ascii_strip_pad:
  assumes "\<forall>c\<in>set l. is_space c" "\<forall>c\<in>set r. is_space c"
  shows "ascii_strip (l @ s @ r) = ascii_strip s"
proof (cases "\<forall>c\<in>set s. is_space c")
  case True
  have a: "dropWhile is_space (l @ s @ r) = []"
    using assms True by auto
  have b: "dropWhile is_space s = []"
    using True by auto
  show ?thesis by (simp only: ascii_strip_def a b)
next
  case False
  then obtain x where x: "x \<in> set s" "\<not> is_space x" by blast
  have "dropWhile is_space (s @ r) = dropWhile is_space s @ r"
    using x by (rule dropWhile_append1)
  then have "dropWhile is_space (l @ s @ r) = dropWhile is_space s @ r"
    using assms(1) by (simp add: dropWhile_all_space)
  moreover have "dropWhile is_space (rev r @ rev (dropWhile is_space s))
      = dropWhile is_space (rev (dropWhile is_space s))"
    using assms(2) by (intro dropWhile_all_space) simp
  ultimately show ?thesis by (simp add: ascii_strip_def)
qed

text \<open>
  The three laws of \<open>str.lower\<close> and \<open>str.strip\<close> that the invariance of the lookup rests
  on, for ASCII text: lowercasing is idempotent, it leaves whitespace around a string in
  place, and trimming removes whitespace around a string. A string is whitespace when
  trimming leaves nothing of it.
\<close>

lemma ascii_python_laws:
  "(\<forall>s. lower ascii_python (lower ascii_python s) = lower ascii_python s)
   \<and> (\<forall>l s r. strip ascii_python l = [] \<and> strip ascii_python r = []
        \<longrightarrow> lower ascii_python (l @ s @ r) = l @ lower ascii_python s @ r)
   \<and> (\<forall>l s r. strip ascii_python l = [] \<and> strip ascii_python r = []
        \<longrightarrow> strip ascii_python (l @ s @ r) = strip ascii_python s)"
  by (simp add: ascii_python_def ascii_lower_idem ascii_strip_empty ascii_lower_pad ascii_strip_pad)

section \<open>Properties of the lookup\<close>

lemma first_match_absent:
  "\<forall>e\<in>set es. lower py (name e) \<noteq> q \<Longrightarrow> first_match py es q = None"
  by (induction es) simp_all

lemma first_match_present:
  assumes "e \<in> set es"
    and "\<forall>e'\<in>set es. lower py (name e') = lower py (name e) \<longrightarrow> capital e' = capital e"
  shows "first_match py es (lower py (name e)) = Some (capital e)"
  using assms
proof (induction es)
  case Nil
  then show ?case by simp
next
  case (Cons a es)
  show ?case
  proof (cases "lower py (name a) = lower py (name e)")
    case True
    then have "capital a = capital e"
      using Cons.prems(2) by simp
    with True show ?thesis by simp
  next
    case False
    then have "e \<in> set es"
      using Cons.prems(1) by auto
    moreover have "\<forall>e'\<in>set es. lower py (name e') = lower py (name e) \<longrightarrow> capital e' = capital e"
      using Cons.prems(2) by simp
    ultimately have "first_match py es (lower py (name e)) = Some (capital e)"
      by (rule Cons.IH)
    with False show ?thesis by simp
  qed
qed

text \<open>The lookup reads the query through its lowercased, trimmed form only.\<close>

lemma find_capital_normalised:
  "strip py (lower py q') = strip py (lower py q) \<Longrightarrow> find_capital py dh q' = find_capital py dh q"
  by (simp add: find_capital_def find_country_capital_def find_state_capital_def Let_def)

section \<open>Format detection: the default\<close>

text \<open>
  Claim C9. For every byte string whose leading bytes match none of the wav, mp3, webm or
  ogg signatures, \<open>detect_audio_format\<close> returns the default \<open>"webm"\<close>; the function
  returns one of the four format names for every input, it never raises.
\<close>

theorem detect_audio_format_default:
  "detect_audio_format d \<in> {''wav'', ''mp3'', ''webm'', ''ogg''}
   \<and> (\<not> (startswith d ''RIFF'' \<and> slice d 8 12 = ''WAVE'')
        \<and> \<not> (startswith d ''ID3'' \<or> startswith d [CHR 0xFF, CHR 0xFB])
        \<and> \<not> startswith d [CHR 0x1A, CHR 0x45, CHR 0xDF, CHR 0xA3]
        \<and> \<not> startswith d ''OggS''
      \<longrightarrow> detect_audio_format d = ''webm'')"
  unfolding detect_audio_format_def by simp

text \<open>
  Plain text, the empty input and a \<open>RIFF\<close> header with no \<open>WAVE\<close> tag all fall through to
  the default.
\<close>

theorem detect_audio_format_default_witness:
  "detect_audio_format ''hello world'' = ''webm'' \<and> detect_audio_format [] = ''webm''
   \<and> detect_audio_format ''RIFF'' = ''webm''"
  using detect_audio_format_default [of "''hello world''"] detect_audio_format_default [of "[]"]
    detect_audio_format_default [of "''RIFF''"]
  by (simp add: startswith_def slice_def)


section \<open>The orchestrator: the minimum-size guard\<close>

text \<open>
  Claim C4. For every byte string shorter than 100 bytes \<open>transcribe_audio_bytes\<close> returns
  the failure \<open>"Audio data too small or invalid"\<close> with a null transcription, whatever the
  transcription mode is, and the state is returned as it was: the call log has no new
  entry, so neither the streaming backend nor the bucket backend was invoked.
\<close>

theorem transcribe_audio_bytes_too_small:
  "length audio_data < 100 \<Longrightarrow>
     transcribe_audio_bytes w st audio_data
       = Some ([(''success'', PBool False),
                (''error'', PStr ''Audio data too small or invalid''),
                (''transcription'', PNone)], st)"
  by (simp add: transcribe_audio_bytes_def)

theorem transcribe_audio_bytes_too_small_witness:
  "\<forall>w st. transcribe_audio_bytes w st ''not audio''
       = Some ([(''success'', PBool False),
                (''error'', PStr ''Audio data too small or invalid''),
                (''transcription'', PNone)], st)"
  using transcribe_audio_bytes_too_small [of "''not audio''"] by simp

section \<open>Data lookup: what a query finds\<close>

text \<open>
  Claim C5, as the code has it. A name of the country table is found with its stored
  capital when its lowercased form is unchanged by trimming (the name has no whitespace
  in front or behind), the stored capital is not empty, and every entry of the country
  table with the same lowercased name stores the same capital. A query whose lowercased,
  trimmed form is the lowercased name of no entry of either table gives \<open>None\<close>. Both
  hold for every \<open>str.lower\<close> and \<open>str.strip\<close>.
\<close>

theorem find_capital_lookup:
  "(e \<in> set (countries dh) \<and> strip py (lower py (name e)) = lower py (name e)
      \<and> capital e \<noteq> [] \<and>
      (\<forall>e'\<in>set (countries dh).
          lower py (name e') = lower py (name e) \<longrightarrow> capital e' = capital e)
      \<longrightarrow> find_capital py dh (name e) = Some (capital e))
   \<and> ((\<forall>e'\<in>set (countries dh) \<union> set (states dh). lower py (name e') \<noteq> strip py (lower py q))
      \<longrightarrow> find_capital py dh q = None)"
proof (intro conjI impI)
  assume h: "e \<in> set (countries dh) \<and> strip py (lower py (name e)) = lower py (name e)
      \<and> capital e \<noteq> [] \<and>
      (\<forall>e'\<in>set (countries dh).
          lower py (name e') = lower py (name e) \<longrightarrow> capital e' = capital e)"
  from h have mem: "e \<in> set (countries dh)" by (rule conjunct1)
  from h have trimmed: "strip py (lower py (name e)) = lower py (name e)" by blast
  from h have nonempty: "capital e \<noteq> []" by blast
  from h have uniq: "\<forall>e'\<in>set (countries dh).
      lower py (name e') = lower py (name e) \<longrightarrow> capital e' = capital e" by blast
  have "first_match py (countries dh) (lower py (name e)) = Some (capital e)"
    using mem uniq by (rule first_match_present)
  then have "find_country_capital py dh (name e) = Some (capital e)"
    by (simp only: find_country_capital_def Let_def trimmed)
  then show "find_capital py dh (name e) = Some (capital e)"
    using nonempty by (simp add: find_capital_def)
next
  assume h: "\<forall>e'\<in>set (countries dh) \<union> set (states dh). lower py (name e') \<noteq> strip py (lower py q)"
  have "first_match py (countries dh) (strip py (lower py q)) = None"
    using h by (intro first_match_absent) blast
  moreover have "first_match py (states dh) (strip py (lower py q)) = None"
    using h by (intro first_match_absent) blast
  ultimately show "find_capital py dh q = None"
    by (simp add: find_capital_def find_country_capital_def find_state_capital_def)
qed

text \<open>The table with France and Texas: France is found, Atlantis is not.\<close>

theorem find_capital_lookup_witness:
  "find_capital ascii_python
       \<lparr>countries = [\<lparr>name = ''France'', capital = ''Paris''\<rparr>],
        states = [\<lparr>name = ''Texas'', capital = ''Austin''\<rparr>]\<rparr> ''France'' = Some ''Paris''
   \<and> find_capital ascii_python
       \<lparr>countries = [\<lparr>name = ''France'', capital = ''Paris''\<rparr>],
        states = [\<lparr>name = ''Texas'', capital = ''Austin''\<rparr>]\<rparr> ''Atlantis'' = None"
proof -
  let ?e = "\<lparr>name = ''France'', capital = ''Paris''\<rparr>"
  let ?dh = "\<lparr>countries = [?e], states = [\<lparr>name = ''Texas'', capital = ''Austin''\<rparr>]\<rparr>"
  have l: "lower ascii_python ''France'' = ''france''" "lower ascii_python ''Texas'' = ''texas''"
      "strip ascii_python ''france'' = ''france''"
      "strip ascii_python (lower ascii_python ''Atlantis'') = ''atlantis''"
    by (simp_all add: ascii_python_def ascii_lower_def lower_char_def ascii_strip_def is_space_def)
  have pre1: "?e \<in> set (countries ?dh)
      \<and> strip ascii_python (lower ascii_python (name ?e)) = lower ascii_python (name ?e)
      \<and> capital ?e \<noteq> [] \<and>
      (\<forall>e'\<in>set (countries ?dh).
          lower ascii_python (name e') = lower ascii_python (name ?e) \<longrightarrow> capital e' = capital ?e)"
    using l by simp
  have pre2: "\<forall>e'\<in>set (countries ?dh) \<union> set (states ?dh).
      lower ascii_python (name e') \<noteq> strip ascii_python (lower ascii_python ''Atlantis'')"
    using l by simp
  from find_capital_lookup [of ?e ?dh ascii_python "''Atlantis''"] pre1 pre2
  have "find_capital ascii_python ?dh (name ?e) = Some (capital ?e)
      \<and> find_capital ascii_python ?dh ''Atlantis'' = None"
    by blast
  then show ?thesis by simp
qed

text \<open>
  The claim as written fails in four ways. A stored empty capital is not returned
  (\<open>if capital:\<close> is false for it). A table name with a leading blank is never found, as
  only the query is trimmed. Of two entries with the same lowercased name the first one
  answers for both. And a query that differs from every name by surrounding blanks, so
  that it equals no name even ignoring case, is found all the same.
\<close>

theorem find_capital_lookup_counterexample:
  "find_capital ascii_python
       \<lparr>countries = [\<lparr>name = ''France'', capital = ''''\<rparr>], states = []\<rparr> ''France'' = None
   \<and> find_capital ascii_python
       \<lparr>countries = [\<lparr>name = '' France'', capital = ''Paris''\<rparr>], states = []\<rparr>
        '' France'' = None
   \<and> find_capital ascii_python
       \<lparr>countries = [\<lparr>name = ''Georgia'', capital = ''Tbilisi''\<rparr>,
                     \<lparr>name = ''georgia'', capital = ''Atlanta''\<rparr>], states = []\<rparr>
        ''georgia'' = Some ''Tbilisi''
   \<and> lower ascii_python '' France '' \<noteq> lower ascii_python ''France''
   \<and> find_capital ascii_python
       \<lparr>countries = [\<lparr>name = ''France'', capital = ''Paris''\<rparr>], states = []\<rparr>
        '' France '' = Some ''Paris''"
  by (simp add: find_capital_def find_country_capital_def find_state_capital_def Let_def
      ascii_python_def ascii_lower_def lower_char_def ascii_strip_def is_space_def)

text \<open>
  Claim C6. \<open>find_capital\<close> gives the same answer for a query, for its lowercased form,
  for every query with the same lowercased form (any change of letter case), and for the
  query with whitespace added in front and behind. This holds for every \<open>str.lower\<close> and
  \<open>str.strip\<close> with the three laws that Python's have: lowercasing is idempotent, it
  leaves whitespace around a string in place, and trimming removes whitespace around a
  string. A string is whitespace when trimming leaves nothing of it.
\<close>

theorem find_capital_invariant:
  "(\<forall>s. lower py (lower py s) = lower py s)
   \<and> (\<forall>l s r. strip py l = [] \<and> strip py r = [] \<longrightarrow> lower py (l @ s @ r) = l @ lower py s @ r)
   \<and> (\<forall>l s r. strip py l = [] \<and> strip py r = [] \<longrightarrow> strip py (l @ s @ r) = strip py s)
   \<longrightarrow>
     find_capital py dh (lower py q) = find_capital py dh q
     \<and> (lower py q' = lower py q \<longrightarrow> find_capital py dh q' = find_capital py dh q)
     \<and> (strip py l = [] \<and> strip py r = []
          \<longrightarrow> find_capital py dh (l @ q @ r) = find_capital py dh q)"
proof
  assume laws: "(\<forall>s. lower py (lower py s) = lower py s)
   \<and> (\<forall>l s r. strip py l = [] \<and> strip py r = [] \<longrightarrow> lower py (l @ s @ r) = l @ lower py s @ r)
   \<and> (\<forall>l s r. strip py l = [] \<and> strip py r = [] \<longrightarrow> strip py (l @ s @ r) = strip py s)"
  then have idem: "lower py (lower py q) = lower py q"
    by blast
  have a: "find_capital py dh (lower py q) = find_capital py dh q"
    by (rule find_capital_normalised) (simp only: idem)
  have b: "find_capital py dh q' = find_capital py dh q" if "lower py q' = lower py q"
  proof -
    from that have "strip py (lower py q') = strip py (lower py q)"
      by (rule arg_cong)
    then show ?thesis
      by (rule find_capital_normalised)
  qed
  have c: "find_capital py dh (l @ q @ r) = find_capital py dh q"
    if blank: "strip py l = [] \<and> strip py r = []"
  proof -
    from laws blank have "lower py (l @ q @ r) = l @ lower py q @ r"
      by blast
    moreover from laws blank have "strip py (l @ lower py q @ r) = strip py (lower py q)"
      by blast
    ultimately have "strip py (lower py (l @ q @ r)) = strip py (lower py q)"
      by (simp only:)
    then show ?thesis
      by (rule find_capital_normalised)
  qed
  from a b c show "find_capital py dh (lower py q) = find_capital py dh q
     \<and> (lower py q' = lower py q \<longrightarrow> find_capital py dh q' = find_capital py dh q)
     \<and> (strip py l = [] \<and> strip py r = []
          \<longrightarrow> find_capital py dh (l @ q @ r) = find_capital py dh q)"
    by blast
qed

text \<open>\<open>"france"\<close>, \<open>" France "\<close> and \<open>"FRANCE"\<close> all find Paris.\<close>

theorem find_capital_invariant_witness:
  "find_capital ascii_python
       \<lparr>countries = [\<lparr>name = ''France'', capital = ''Paris''\<rparr>], states = []\<rparr> ''france''
     = Some ''Paris''
   \<and> find_capital ascii_python
       \<lparr>countries = [\<lparr>name = ''France'', capital = ''Paris''\<rparr>], states = []\<rparr> '' France ''
     = Some ''Paris''
   \<and> find_capital ascii_python
       \<lparr>countries = [\<lparr>name = ''France'', capital = ''Paris''\<rparr>], states = []\<rparr> ''FRANCE''
     = Some ''Paris''"
proof -
  let ?dh = "\<lparr>countries = [\<lparr>name = ''France'', capital = ''Paris''\<rparr>], states = []\<rparr>"
  have base: "find_capital ascii_python ?dh ''France'' = Some ''Paris''"
    by (simp add: find_capital_def find_country_capital_def Let_def ascii_python_def
        ascii_lower_def lower_char_def ascii_strip_def is_space_def)
  have sp: "strip ascii_python '' '' = [] \<and> strip ascii_python '' '' = []"
    by (simp add: ascii_python_def ascii_strip_def is_space_def)
  have lo: "lower ascii_python ''France'' = ''france''"
    by (simp add: ascii_python_def ascii_lower_def lower_char_def)
  have up: "lower ascii_python ''FRANCE'' = lower ascii_python ''France''"
    by (simp add: ascii_python_def ascii_lower_def lower_char_def)
  from find_capital_invariant [of ascii_python ?dh "''France''" "''FRANCE''" "'' ''" "'' ''"]
    ascii_python_laws sp up
  have "find_capital ascii_python ?dh (lower ascii_python ''France'')
        = find_capital ascii_python ?dh ''France''
      \<and> find_capital ascii_python ?dh ''FRANCE'' = find_capital ascii_python ?dh ''France''
      \<and> find_capital ascii_python ?dh ('' '' @ ''France'' @ '' '')
        = find_capital ascii_python ?dh ''France''"
    by blast
  then show ?thesis
    by (simp add: lo base)
qed


section \<open>Intent parsing: the accepted shapes\<close>

text \<open>
  Claim C7, as the code has it. \<open>CAPITAL_QUERY:COUNTRY:France\<close> parses to a capital query
  of type \<open>COUNTRY\<close> for the entity \<open>France\<close>, and \<open>OTHER_QUERY\<close> to no capital query
  (trimming leaves these strings, which have no whitespace around them, as they are). A
  response whose trimmed text does not start with \<open>CAPITAL_QUERY:\<close>, or has fewer than
  three parts between colons, parses to no capital query. Every other response is
  accepted as a capital query: its type is the second part, whatever that is, and its
  entity is the rest, joined with colons and trimmed. The parser is total. Trimming is
  \<open>str.strip\<close>, whatever it trims.
\<close>

theorem parse_intent_response_shapes:
  "(strip py ''CAPITAL_QUERY:COUNTRY:France'' = ''CAPITAL_QUERY:COUNTRY:France''
      \<and> strip py ''France'' = ''France''
      \<longrightarrow> parse_intent_response py ''CAPITAL_QUERY:COUNTRY:France''
          = [(''is_capital_query'', PBool True), (''query_type'', PStr ''COUNTRY''),
             (''entity'', PStr ''France''), (''error'', PNone)])
   \<and> (strip py ''OTHER_QUERY'' = ''OTHER_QUERY''
      \<longrightarrow> parse_intent_response py ''OTHER_QUERY''
          = [(''is_capital_query'', PBool False), (''entity'', PNone), (''error'', PNone)])
   \<and> (\<not> startswith (strip py r) ''CAPITAL_QUERY:''
        \<or> length (split_on (CHR '':'') (strip py r)) < 3
        \<longrightarrow> parse_intent_response py r
            = [(''is_capital_query'', PBool False), (''entity'', PNone), (''error'', PNone)])
   \<and> (startswith (strip py r) ''CAPITAL_QUERY:''
        \<and> 3 \<le> length (split_on (CHR '':'') (strip py r))
        \<longrightarrow> parse_intent_response py r
            = [(''is_capital_query'', PBool True),
               (''query_type'', PStr (split_on (CHR '':'') (strip py r) ! 1)),
               (''entity'',
                PStr (strip py (join '':'' (drop 2 (split_on (CHR '':'') (strip py r)))))),
               (''error'', PNone)])"
proof -
  have a: "parse_intent_response py ''CAPITAL_QUERY:COUNTRY:France''
          = [(''is_capital_query'', PBool True), (''query_type'', PStr ''COUNTRY''),
             (''entity'', PStr ''France''), (''error'', PNone)]"
    if "strip py ''CAPITAL_QUERY:COUNTRY:France'' = ''CAPITAL_QUERY:COUNTRY:France''
      \<and> strip py ''France'' = ''France''"
    using that by (simp add: parse_intent_response_def startswith_def)
  have b: "parse_intent_response py ''OTHER_QUERY''
          = [(''is_capital_query'', PBool False), (''entity'', PNone), (''error'', PNone)]"
    if "strip py ''OTHER_QUERY'' = ''OTHER_QUERY''"
    using that by (simp add: parse_intent_response_def not_capital_query_def startswith_def)
  have c: "parse_intent_response py r
            = [(''is_capital_query'', PBool False), (''entity'', PNone), (''error'', PNone)]"
    if "\<not> startswith (strip py r) ''CAPITAL_QUERY:''
        \<or> length (split_on (CHR '':'') (strip py r)) < 3"
    using that unfolding parse_intent_response_def not_capital_query_def Let_def by auto
  have d: "parse_intent_response py r
            = [(''is_capital_query'', PBool True),
               (''query_type'', PStr (split_on (CHR '':'') (strip py r) ! 1)),
               (''entity'',
                PStr (strip py (join '':'' (drop 2 (split_on (CHR '':'') (strip py r)))))),
               (''error'', PNone)]"
    if "startswith (strip py r) ''CAPITAL_QUERY:''
        \<and> 3 \<le> length (split_on (CHR '':'') (strip py r))"
    using that unfolding parse_intent_response_def Let_def by simp
  from a b c d show ?thesis by blast
qed

text \<open>
  The two responses of the claim, \<open>CAPITAL_QUERY:France\<close> with its missing part, which is
  no capital query, and a padded response for a state, which is one.
\<close>

theorem parse_intent_response_shapes_witness:
  "parse_intent_response ascii_python ''CAPITAL_QUERY:COUNTRY:France''
     = [(''is_capital_query'', PBool True), (''query_type'', PStr ''COUNTRY''),
        (''entity'', PStr ''France''), (''error'', PNone)]
   \<and> parse_intent_response ascii_python ''OTHER_QUERY''
     = [(''is_capital_query'', PBool False), (''entity'', PNone), (''error'', PNone)]
   \<and> parse_intent_response ascii_python ''CAPITAL_QUERY:France''
     = [(''is_capital_query'', PBool False), (''entity'', PNone), (''error'', PNone)]
   \<and> parse_intent_response ascii_python ''  CAPITAL_QUERY:STATE:New York  ''
     = [(''is_capital_query'', PBool True), (''query_type'', PStr ''STATE''),
        (''entity'', PStr ''New York''), (''error'', PNone)]"
proof -
  have s: "strip ascii_python ''CAPITAL_QUERY:COUNTRY:France'' = ''CAPITAL_QUERY:COUNTRY:France''"
      "strip ascii_python ''France'' = ''France''"
      "strip ascii_python ''OTHER_QUERY'' = ''OTHER_QUERY''"
      "strip ascii_python ''CAPITAL_QUERY:France'' = ''CAPITAL_QUERY:France''"
      "strip ascii_python ''  CAPITAL_QUERY:STATE:New York  '' = ''CAPITAL_QUERY:STATE:New York''"
      "strip ascii_python ''New York'' = ''New York''"
    by (simp_all add: ascii_python_def ascii_strip_def is_space_def)
  show ?thesis
    using parse_intent_response_shapes [of ascii_python "''CAPITAL_QUERY:France''"]
      parse_intent_response_shapes [of ascii_python "''  CAPITAL_QUERY:STATE:New York  ''"]
    by (simp add: s startswith_def)
qed

text \<open>
  Two responses outside the grammar of the prompt that are accepted as capital queries:
  a type that is neither \<open>COUNTRY\<close> nor \<open>STATE\<close>, and empty type and entity.
\<close>

theorem parse_intent_response_counterexample:
  "parse_intent_response ascii_python ''CAPITAL_QUERY:PLANET:Mars''
     = [(''is_capital_query'', PBool True), (''query_type'', PStr ''PLANET''),
        (''entity'', PStr ''Mars''), (''error'', PNone)]
   \<and> parse_intent_response ascii_python ''CAPITAL_QUERY::''
     = [(''is_capital_query'', PBool True), (''query_type'', PStr ''''),
        (''entity'', PStr ''''), (''error'', PNone)]"
  by (simp add: parse_intent_response_def ascii_python_def ascii_strip_def is_space_def
      startswith_def)

section \<open>The coordinator: failing stages\<close>

text \<open>The text flow never runs the transcription or the synthesis stage.\<close>

lemma process_text_input_stages:
  "SynthesizeSpeech \<notin> set (snd (process_text_input py ag s)) \<and>
   Transcribe \<notin> set (snd (process_text_input py ag s))"
  unfolding process_text_input_def Let_def
  by (simp split: pyval.split option.split prod.split)

text \<open>A result of the text flow that is not a success carries an error.\<close>

lemma process_text_input_success_or_error:
  "truthy (dget (fst (process_text_input py ag s)) ''success'') \<or>
   truthy (dget (fst (process_text_input py ag s)) ''error'')"
  unfolding process_text_input_def Let_def
  by (simp add: dget_def text_exception_result_def split: pyval.split option.split prod.split)

text \<open>
  Claim C8. In the voice flow, a transcription result that is not a success gives the
  failure with the generic response \<open>"I'm sorry, I couldn't understand your voice input."\<close>
  and the error of the transcription (or \<open>"Transcription failed"\<close> when it has none); a
  successful result with an empty transcription gives the failure with the generic
  response \<open>"I'm sorry, I couldn't transcribe your voice input."\<close> and the error
  \<open>"No transcription result"\<close>. In both cases only the transcription stage was invoked:
  neither the intent classification nor the speech synthesis ran. A failure of the text
  flow is returned as it is, with its error, and the synthesis stage is not invoked.
\<close>

theorem process_voice_input_short_circuit:
  "(transcribe ag audio_data = Inr tr \<and> \<not> truthy (dget tr ''success'') \<longrightarrow>
      process_voice_input py ag audio_data =
        ([(''response'', PStr ''I'm sorry, I couldn't understand your voice input.''),
          (''success'', PBool False),
          (''error'', dget_default tr ''error'' (PStr ''Transcription failed''))], [Transcribe]))
   \<and> (transcribe ag audio_data = Inr tr \<and> truthy (dget tr ''success'')
        \<and> \<not> truthy (dget tr ''transcription'') \<longrightarrow>
      process_voice_input py ag audio_data =
        ([(''response'', PStr ''I'm sorry, I couldn't transcribe your voice input.''),
          (''success'', PBool False),
          (''error'', PStr ''No transcription result'')], [Transcribe]))
   \<and> (transcribe ag audio_data = Inr tr \<and> truthy (dget tr ''success'')
        \<and> dget tr ''transcription'' = PStr spoken \<and> spoken \<noteq> []
        \<and> \<not> truthy (dget (fst (process_text_input py ag spoken)) ''success'') \<longrightarrow>
      process_voice_input py ag audio_data =
        (fst (process_text_input py ag spoken), Transcribe # snd (process_text_input py ag spoken))
      \<and> truthy (dget (fst (process_text_input py ag spoken)) ''error'')
      \<and> SynthesizeSpeech \<notin> set (snd (process_voice_input py ag audio_data)))"
proof -
  have a: "process_voice_input py ag audio_data =
        ([(''response'', PStr ''I'm sorry, I couldn't understand your voice input.''),
          (''success'', PBool False),
          (''error'', dget_default tr ''error'' (PStr ''Transcription failed''))], [Transcribe])"
    if "transcribe ag audio_data = Inr tr \<and> \<not> truthy (dget tr ''success'')"
    using that by (simp add: process_voice_input_def)
  have b: "process_voice_input py ag audio_data =
        ([(''response'', PStr ''I'm sorry, I couldn't transcribe your voice input.''),
          (''success'', PBool False),
          (''error'', PStr ''No transcription result'')], [Transcribe])"
    if "transcribe ag audio_data = Inr tr \<and> truthy (dget tr ''success'')
        \<and> \<not> truthy (dget tr ''transcription'')"
    using that by (simp add: process_voice_input_def)
  have c: "process_voice_input py ag audio_data =
        (fst (process_text_input py ag spoken), Transcribe # snd (process_text_input py ag spoken))
      \<and> truthy (dget (fst (process_text_input py ag spoken)) ''error'')
      \<and> SynthesizeSpeech \<notin> set (snd (process_voice_input py ag audio_data))"
    if h: "transcribe ag audio_data = Inr tr \<and> truthy (dget tr ''success'')
        \<and> dget tr ''transcription'' = PStr spoken \<and> spoken \<noteq> []
        \<and> \<not> truthy (dget (fst (process_text_input py ag spoken)) ''success'')"
  proof -
    have r: "process_voice_input py ag audio_data =
        (fst (process_text_input py ag spoken), Transcribe # snd (process_text_input py ag spoken))"
      using h by (simp add: process_voice_input_def split_beta)
    have e: "truthy (dget (fst (process_text_input py ag spoken)) ''error'')"
      using h process_text_input_success_or_error [of py ag spoken] by blast
    have s: "SynthesizeSpeech \<notin> set (snd (process_voice_input py ag audio_data))"
      using process_text_input_stages [of py ag spoken] by (simp add: r)
    from r e s show ?thesis by blast
  qed
  from a b c show ?thesis by blast
qed

text \<open>
  An agent whose transcription fails for the audio \<open>a\<close>, is empty for \<open>b\<close> and is
  \<open>hello\<close> otherwise, and whose language model is not reachable.
\<close>

theorem process_voice_input_short_circuit_witness:
  "process_voice_input ascii_python
     \<lparr>transcribe = (\<lambda>a. if a = ''a'' then Inr [(''success'', PBool False),
                             (''error'', PStr ''Audio data too small or invalid''),
                             (''transcription'', PNone)]
                        else if a = ''b'' then Inr [(''success'', PBool True),
                             (''transcription'', PStr ''''), (''note'', PStr ''done'')]
                        else Inr [(''success'', PBool True),
                             (''transcription'', PStr ''hello''), (''note'', PStr ''done'')]),
      invoke_intent_model = (\<lambda>t. Inl ''bedrock is down''),
      invoke_response_model = (\<lambda>q e c. Inl ''bedrock is down''),
      handler = \<lparr>countries = [], states = []\<rparr>,
      polly_synthesize = (\<lambda>t. Inl ''polly is down'')\<rparr> ''a''
   = ([(''response'', PStr ''I'm sorry, I couldn't understand your voice input.''),
       (''success'', PBool False),
       (''error'', PStr ''Audio data too small or invalid'')], [Transcribe])
   \<and> process_voice_input ascii_python
     \<lparr>transcribe = (\<lambda>a. if a = ''a'' then Inr [(''success'', PBool False),
                             (''error'', PStr ''Audio data too small or invalid''),
                             (''transcription'', PNone)]
                        else if a = ''b'' then Inr [(''success'', PBool True),
                             (''transcription'', PStr ''''), (''note'', PStr ''done'')]
                        else Inr [(''success'', PBool True),
                             (''transcription'', PStr ''hello''), (''note'', PStr ''done'')]),
      invoke_intent_model = (\<lambda>t. Inl ''bedrock is down''),
      invoke_response_model = (\<lambda>q e c. Inl ''bedrock is down''),
      handler = \<lparr>countries = [], states = []\<rparr>,
      polly_synthesize = (\<lambda>t. Inl ''polly is down'')\<rparr> ''b''
   = ([(''response'', PStr ''I'm sorry, I couldn't transcribe your voice input.''),
       (''success'', PBool False),
       (''error'', PStr ''No transcription result'')], [Transcribe])
   \<and> process_voice_input ascii_python
     \<lparr>transcribe = (\<lambda>a. if a = ''a'' then Inr [(''success'', PBool False),
                             (''error'', PStr ''Audio data too small or invalid''),
                             (''transcription'', PNone)]
                        else if a = ''b'' then Inr [(''success'', PBool True),
                             (''transcription'', PStr ''''), (''note'', PStr ''done'')]
                        else Inr [(''success'', PBool True),
                             (''transcription'', PStr ''hello''), (''note'', PStr ''done'')]),
      invoke_intent_model = (\<lambda>t. Inl ''bedrock is down''),
      invoke_response_model = (\<lambda>q e c. Inl ''bedrock is down''),
      handler = \<lparr>countries = [], states = []\<rparr>,
      polly_synthesize = (\<lambda>t. Inl ''polly is down'')\<rparr> ''c''
   = ([(''response'', PStr ''I'm sorry, I'm having trouble processing your request right now.''),
       (''success'', PBool False),
       (''error'', PStr ''bedrock is down'')], [Transcribe, AnalyzeIntent])"
proof -
  let ?fail = "[(''success'', PBool False), (''error'', PStr ''Audio data too small or invalid''),
                (''transcription'', PNone)]"
  let ?empty = "[(''success'', PBool True), (''transcription'', PStr ''''), (''note'', PStr ''done'')]"
  let ?ok = "[(''success'', PBool True), (''transcription'', PStr ''hello''), (''note'', PStr ''done'')]"
  let ?ag = "\<lparr>transcribe = (\<lambda>a. if a = ''a'' then Inr ?fail
                        else if a = ''b'' then Inr ?empty else Inr ?ok),
      invoke_intent_model = (\<lambda>t. Inl ''bedrock is down''),
      invoke_response_model = (\<lambda>q e c. Inl ''bedrock is down''),
      handler = \<lparr>countries = [], states = []\<rparr>,
      polly_synthesize = (\<lambda>t. Inl ''polly is down'')\<rparr>"
  have t: "process_text_input ascii_python ?ag ''hello''
      = ([(''response'', PStr ''I'm sorry, I'm having trouble processing your request right now.''),
          (''success'', PBool False),
          (''error'', PStr ''bedrock is down'')], [AnalyzeIntent])"
    by (simp add: process_text_input_def analyze_intent_def dget_def)
  have a: "transcribe ?ag ''a'' = Inr ?fail \<and> \<not> truthy (dget ?fail ''success'')"
    by (simp add: dget_def)
  have b: "transcribe ?ag ''b'' = Inr ?empty \<and> truthy (dget ?empty ''success'')
        \<and> \<not> truthy (dget ?empty ''transcription'')"
    by (simp add: dget_def)
  have c: "transcribe ?ag ''c'' = Inr ?ok \<and> truthy (dget ?ok ''success'')
        \<and> dget ?ok ''transcription'' = PStr ''hello'' \<and> ''hello'' \<noteq> []
        \<and> \<not> truthy (dget (fst (process_text_input ascii_python ?ag ''hello'')) ''success'')"
    by (simp add: t dget_def)
  have d: "dget_default ?fail ''error'' (PStr ''Transcription failed'')
      = PStr ''Audio data too small or invalid''"
    by (simp add: dget_default_def)
  from process_voice_input_short_circuit [of ?ag "''a''" ?fail ascii_python "''hello''"] a
  have 1: "process_voice_input ascii_python ?ag ''a'' =
        ([(''response'', PStr ''I'm sorry, I couldn't understand your voice input.''),
          (''success'', PBool False),
          (''error'', dget_default ?fail ''error'' (PStr ''Transcription failed''))], [Transcribe])"
    by blast
  from process_voice_input_short_circuit [of ?ag "''b''" ?empty ascii_python "''hello''"] b
  have 2: "process_voice_input ascii_python ?ag ''b'' =
        ([(''response'', PStr ''I'm sorry, I couldn't transcribe your voice input.''),
          (''success'', PBool False),
          (''error'', PStr ''No transcription result'')], [Transcribe])"
    by blast
  from process_voice_input_short_circuit [of ?ag "''c''" ?ok ascii_python "''hello''"] c
  have 3: "process_voice_input ascii_python ?ag ''c'' =
        (fst (process_text_input ascii_python ?ag ''hello''), Transcribe # snd (process_text_input ascii_python ?ag ''hello''))"
    by blast
  show ?thesis
    unfolding 1 2 3 d t by simp
qed

text \<open>
  Claim C10. When the transcription and the text flow succeed and the speech synthesis
  fails, the voice result is still a success: it carries the response of the text flow,
  null audio bytes and the error \<open>"Speech synthesis failed"\<close>.
\<close>

theorem process_voice_input_synthesis_failure:
  "transcribe ag audio_data = Inr tr \<and> truthy (dget tr ''success'')
     \<and> dget tr ''transcription'' = PStr spoken \<and> spoken \<noteq> []
     \<and> process_text_input py ag spoken = (text_result, stages)
     \<and> truthy (dget text_result ''success'')
     \<and> dget text_result ''response'' = PStr r
     \<and> polly_synthesize ag r = Inl e
   \<longrightarrow> process_voice_input py ag audio_data =
        ([(''response'', PStr r),
          (''success'', PBool True),
          (''audio_bytes'', PNone),
          (''error'', PStr ''Speech synthesis failed'')],
         Transcribe # stages @ [SynthesizeSpeech])"
proof
  assume h: "transcribe ag audio_data = Inr tr \<and> truthy (dget tr ''success'')
     \<and> dget tr ''transcription'' = PStr spoken \<and> spoken \<noteq> []
     \<and> process_text_input py ag spoken = (text_result, stages)
     \<and> truthy (dget text_result ''success'')
     \<and> dget text_result ''response'' = PStr r
     \<and> polly_synthesize ag r = Inl e"
  from h have "dget text_result ''response'' = PStr r" by blast
  then have resp: "dget_default text_result ''response''
      (PStr ''I'm sorry, I couldn't process your request.'') = PStr r"
    by (simp add: dget_def dget_default_def split: option.splits)
  from h have "polly_synthesize ag r = Inl e" by blast
  then have polly: "\<not> truthy (dget (synthesize_speech_bytes ag r) ''success'')"
    by (simp add: synthesize_speech_bytes_def dget_def)
  from h have t: "transcribe ag audio_data = Inr tr" "truthy (dget tr ''success'')"
    "dget tr ''transcription'' = PStr spoken" "spoken \<noteq> []"
    "process_text_input py ag spoken = (text_result, stages)"
    "truthy (dget text_result ''success'')"
    by blast+
  show "process_voice_input py ag audio_data =
        ([(''response'', PStr r),
          (''success'', PBool True),
          (''audio_bytes'', PNone),
          (''error'', PStr ''Speech synthesis failed'')],
         Transcribe # stages @ [SynthesizeSpeech])"
    by (simp add: process_voice_input_def Let_def t resp polly)
qed

text \<open>The question about France is answered in text although Polly is not reachable.\<close>

theorem process_voice_input_synthesis_failure_witness:
  "process_voice_input ascii_python
     \<lparr>transcribe = (\<lambda>a. Inr [(''success'', PBool True),
                             (''transcription'', PStr ''capital of France?''),
                             (''note'', PStr ''Bucket-based transcription completed.'')]),
      invoke_intent_model = (\<lambda>t. Inr ''CAPITAL_QUERY:COUNTRY:France''),
      invoke_response_model = (\<lambda>q e c. Inr ''It is Paris.''),
      handler = \<lparr>countries = [\<lparr>name = ''France'', capital = ''Paris''\<rparr>], states = []\<rparr>,
      polly_synthesize = (\<lambda>t. Inl ''polly is down'')\<rparr> ''some audio''
   = ([(''response'', PStr ''It is Paris.''),
       (''success'', PBool True),
       (''audio_bytes'', PNone),
       (''error'', PStr ''Speech synthesis failed'')],
      [Transcribe, AnalyzeIntent, FindCapital, GenerateResponse, SynthesizeSpeech])"
proof -
  let ?tr = "[(''success'', PBool True), (''transcription'', PStr ''capital of France?''),
              (''note'', PStr ''Bucket-based transcription completed.'')]"
  let ?ag = "\<lparr>transcribe = (\<lambda>a. Inr ?tr),
      invoke_intent_model = (\<lambda>t. Inr ''CAPITAL_QUERY:COUNTRY:France''),
      invoke_response_model = (\<lambda>q e c. Inr ''It is Paris.''),
      handler = \<lparr>countries = [\<lparr>name = ''France'', capital = ''Paris''\<rparr>], states = []\<rparr>,
      polly_synthesize = (\<lambda>t. Inl ''polly is down'')\<rparr>"
  let ?text = "[(''response'', PStr ''It is Paris.''), (''success'', PBool True),
                (''query_type'', PStr ''COUNTRY''), (''entity'', PStr ''France''),
                (''capital'', PStr ''Paris'')]"
  have p: "parse_intent_response ascii_python ''CAPITAL_QUERY:COUNTRY:France''
      = [(''is_capital_query'', PBool True), (''query_type'', PStr ''COUNTRY''),
         (''entity'', PStr ''France''), (''error'', PNone)]"
    by (simp add: parse_intent_response_def ascii_python_def ascii_strip_def is_space_def
        startswith_def)
  have f: "find_capital ascii_python
      \<lparr>countries = [\<lparr>name = ''France'', capital = ''Paris''\<rparr>], states = []\<rparr>
      ''France'' = Some ''Paris''"
    by (simp add: find_capital_def find_country_capital_def Let_def ascii_python_def
        ascii_lower_def lower_char_def ascii_strip_def is_space_def)
  have g: "strip ascii_python ''It is Paris.'' = ''It is Paris.''"
    by (simp add: ascii_python_def ascii_strip_def is_space_def)
  have t: "process_text_input ascii_python ?ag ''capital of France?''
      = (?text, [AnalyzeIntent, FindCapital, GenerateResponse])"
    by (simp add: process_text_input_def analyze_intent_def generate_response_def p f g dget_def)
  have h: "transcribe ?ag ''some audio'' = Inr ?tr \<and> truthy (dget ?tr ''success'')
     \<and> dget ?tr ''transcription'' = PStr ''capital of France?'' \<and> ''capital of France?'' \<noteq> []
     \<and> process_text_input ascii_python ?ag ''capital of France?''
         = (?text, [AnalyzeIntent, FindCapital, GenerateResponse])
     \<and> truthy (dget ?text ''success'')
     \<and> dget ?text ''response'' = PStr ''It is Paris.''
     \<and> polly_synthesize ?ag ''It is Paris.'' = Inl ''polly is down''"
    by (simp add: t dget_def)
  from process_voice_input_synthesis_failure [of ?ag "''some audio''" ?tr "''capital of France?''"
      ascii_python ?text "[AnalyzeIntent, FindCapital, GenerateResponse]" "''It is Paris.''" "''polly is down''"] h
  have "process_voice_input ascii_python ?ag ''some audio'' =
        ([(''response'', PStr ''It is Paris.''),
          (''success'', PBool True),
          (''audio_bytes'', PNone),
          (''error'', PStr ''Speech synthesis failed'')],
         Transcribe # [AnalyzeIntent, FindCapital, GenerateResponse] @ [SynthesizeSpeech])"
    by blast
  then show ?thesis by simp
qed

section \<open>The bucket path: what becomes of a service error\<close>

text \<open>A job that fails after any number of polls leaves the polling loop as an exception.\<close>

lemma poll_loop_failed:
  "\<exists>st'. poll_loop (replicate n InProgress @ Failed reason # rest) st
     = Some (Inl (''Transcription job failed: '' @
                  (case reason of None \<Rightarrow> ''Unknown error'' | Some m \<Rightarrow> m)), st')"
  by (induction n arbitrary: st) simp_all

text \<open>
  An exception leaves \<open>_transcribe_audio\<close> only when the temporary file cannot be written
  or cannot be removed.
\<close>

lemma transcribe_audio_raises:
  assumes "transcribe_audio w st audio_data = Some (Inl e, st')"
  shows "tempfile_create w = Some e \<or> unlink w = Some e"
proof (cases "tempfile_create w")
  case (Some e0)
  then show ?thesis using assms by (simp add: transcribe_audio_def)
next
  case None
  show ?thesis
  proof (cases "unlink w")
    case (Some e1)
    then show ?thesis
      using assms None
      by (simp add: transcribe_audio_def Let_def split: option.splits prod.splits)
  next
    case nu: None
    have False
      using assms None nu
      by (simp add: transcribe_audio_def Let_def
          split: option.splits prod.splits sum.splits if_splits)
    then show ?thesis ..
  qed
qed

text \<open>
  What the bucket path does with a service error. With credentials configured (and the
  temporary file written and removed without error), a failed S3 upload, a failed job
  submission and a job that reaches \<open>FAILED\<close> are caught by the inner \<open>except\<close> of
  \<open>_transcribe_audio\<close> and leave it as the returned text, so that the result of
  \<open>transcribe_audio_bytes\<close> has success true, the message in its \<open>transcription\<close> field
  and no \<open>error\<close> field. A result of the bucket path with success false arises only when
  writing or removing the temporary file raises.
\<close>

lemma bucket_errors_returned_as_text:
  "(100 \<le> length audio_data \<and> current_transcription_mode st \<noteq> ''streaming''
      \<and> has_credentials w \<and> tempfile_create w = None \<and> unlink w = None
    \<longrightarrow>
      (upload_file w = Some e \<longrightarrow>
         map_option fst (transcribe_audio_bytes w st audio_data)
           = Some [(''success'', PBool True),
                   (''transcription'', PStr (transcription_error_message e)),
                   (''note'', PStr ''Bucket-based transcription completed.'')])
      \<and> (upload_file w = None \<and> start_transcription_job w = Some e \<longrightarrow>
         map_option fst (transcribe_audio_bytes w st audio_data)
           = Some [(''success'', PBool True),
                   (''transcription'', PStr (transcription_error_message e)),
                   (''note'', PStr ''Bucket-based transcription completed.'')])
      \<and> (upload_file w = None \<and> start_transcription_job w = None
           \<and> polls w = replicate n InProgress @ Failed reason # rest \<longrightarrow>
         map_option fst (transcribe_audio_bytes w st audio_data)
           = Some [(''success'', PBool True),
                   (''transcription'', PStr (transcription_error_message
                      (''Transcription job failed: '' @
                         (case reason of None \<Rightarrow> ''Unknown error'' | Some m \<Rightarrow> m)))),
                   (''note'', PStr ''Bucket-based transcription completed.'')]))
   \<and> (transcribe_audio_bucket w st audio_data = Some (r, st') \<and> \<not> truthy (dget r ''success'')
      \<longrightarrow> (\<exists>e'. r = failure_result (PStr e')
                 \<and> (tempfile_create w = Some e' \<or> unlink w = Some e')))"
proof -
  have up: "map_option fst (transcribe_audio_bytes w st audio_data)
           = Some [(''success'', PBool True),
                   (''transcription'', PStr (transcription_error_message e)),
                   (''note'', PStr ''Bucket-based transcription completed.'')]"
    if "100 \<le> length audio_data" "current_transcription_mode st \<noteq> ''streaming''"
      "has_credentials w" "tempfile_create w = None" "unlink w = None" "upload_file w = Some e"
    using that
    by (simp add: transcribe_audio_bytes_def transcribe_audio_bucket_def transcribe_audio_def)
  have job: "map_option fst (transcribe_audio_bytes w st audio_data)
           = Some [(''success'', PBool True),
                   (''transcription'', PStr (transcription_error_message e)),
                   (''note'', PStr ''Bucket-based transcription completed.'')]"
    if "100 \<le> length audio_data" "current_transcription_mode st \<noteq> ''streaming''"
      "has_credentials w" "tempfile_create w = None" "unlink w = None"
      "upload_file w = None" "start_transcription_job w = Some e"
    using that
    by (simp add: transcribe_audio_bytes_def transcribe_audio_bucket_def transcribe_audio_def)
  have failed: "map_option fst (transcribe_audio_bytes w st audio_data)
           = Some [(''success'', PBool True),
                   (''transcription'', PStr (transcription_error_message
                      (''Transcription job failed: '' @
                         (case reason of None \<Rightarrow> ''Unknown error'' | Some m \<Rightarrow> m)))),
                   (''note'', PStr ''Bucket-based transcription completed.'')]"
    if h: "100 \<le> length audio_data" "current_transcription_mode st \<noteq> ''streaming''"
      "has_credentials w" "tempfile_create w = None" "unlink w = None"
      "upload_file w = None" "start_transcription_job w = None"
      "polls w = replicate n InProgress @ Failed reason # rest"
  proof -
    obtain st2 where "poll_loop (polls w) (log StartJob (log S3Upload (log TempFile st)))
        = Some (Inl (''Transcription job failed: '' @
                  (case reason of None \<Rightarrow> ''Unknown error'' | Some m \<Rightarrow> m)), st2)"
      using poll_loop_failed [of n reason rest "log StartJob (log S3Upload (log TempFile st))"]
      unfolding h(8) by blast
    then show ?thesis
      using h(1-7)
      by (simp add: transcribe_audio_bytes_def transcribe_audio_bucket_def transcribe_audio_def)
  qed
  have err: "\<exists>e'. r = failure_result (PStr e')
                 \<and> (tempfile_create w = Some e' \<or> unlink w = Some e')"
    if h: "transcribe_audio_bucket w st audio_data = Some (r, st')" "\<not> truthy (dget r ''success'')"
  proof (cases "transcribe_audio w st audio_data")
    case None
    then show ?thesis using h by (simp add: transcribe_audio_bucket_def)
  next
    case (Some p)
    obtain x s1 where p: "p = (x, s1)" by (cases p)
    show ?thesis
    proof (cases x)
      case (Inl e0)
      then have "r = failure_result (PStr e0)"
        using h(1) Some p by (simp add: transcribe_audio_bucket_def)
      moreover have "tempfile_create w = Some e0 \<or> unlink w = Some e0"
        using Some p Inl by (intro transcribe_audio_raises [of w st audio_data e0 s1]) simp
      ultimately show ?thesis by blast
    next
      case (Inr t)
      then have False
        using h Some p by (auto simp: transcribe_audio_bucket_def dget_def)
      then show ?thesis ..
    qed
  qed
  from up job failed err show ?thesis by blast
qed

text \<open>
  Claim C3 says that a failed S3 upload, a failed job submission and a job reaching
  \<open>FAILED\<close> give the caller of \<open>transcribe_audio_bytes\<close> a result with success false and
  an error string, and that no error is reported inside a result whose success is true.
  The code does not do that. In bucket mode, with credentials configured and 100 bytes
  of audio, an upload that fails because S3 cannot be reached, and a job that reaches
  \<open>FAILED\<close> at its second poll, both give success true, no \<open>error\<close> field, and the text of
  the error as the transcription. The \<open>raise\<close> of the \<open>FAILED\<close> branch and the exception
  of the upload are swallowed by the inner \<open>except\<close> of \<open>_transcribe_audio\<close>, which returns
  the message where its callers expect the transcribed text; the other failure paths of
  the client (the \<open>except\<close> of \<open>_transcribe_audio_bucket\<close>, every failure branch of the
  streaming path) return the failure dictionary.
\<close>

theorem bucket_service_error_reported_as_success:
  "transcribe_audio_bytes
      \<lparr>aws_access_key_id = Some ''AKIAEXAMPLE'', aws_secret_access_key = Some ''secret'',
       enable_streaming_fallback = True, streaming_timeout = 30,
       external_convert = (\<lambda>a f. None), streaming_client_start = (\<lambda>p. Some (Inl ''not used'')),
       clock_start = 0, ticks = [], end_stream = None, tempfile_create = None,
       upload_file = Some ''Could not connect to the endpoint URL'', start_transcription_job = None,
       polls = [], unlink = None\<rparr>
      \<lparr>current_transcription_mode = ''bucket'', active_stream = False, calls = []\<rparr>
      (replicate 100 (CHR ''a''))
   = Some ([(''success'', PBool True),
            (''transcription'', PStr ''Transcription failed: Could not connect to the endpoint URL''),
            (''note'', PStr ''Bucket-based transcription completed.'')],
           \<lparr>current_transcription_mode = ''bucket'', active_stream = False,
            calls = [TempFile, S3Upload, Unlink]\<rparr>)
   \<and> transcribe_audio_bytes
      \<lparr>aws_access_key_id = Some ''AKIAEXAMPLE'', aws_secret_access_key = Some ''secret'',
       enable_streaming_fallback = True, streaming_timeout = 30,
       external_convert = (\<lambda>a f. None), streaming_client_start = (\<lambda>p. Some (Inl ''not used'')),
       clock_start = 0, ticks = [], end_stream = None, tempfile_create = None,
       upload_file = None, start_transcription_job = None,
       polls = [InProgress, Failed (Some ''The media format is not valid'')], unlink = None\<rparr>
      \<lparr>current_transcription_mode = ''bucket'', active_stream = False, calls = []\<rparr>
      (replicate 100 (CHR ''a''))
   = Some ([(''success'', PBool True),
            (''transcription'', PStr
               ''Transcription failed: Transcription job failed: The media format is not valid''),
            (''note'', PStr ''Bucket-based transcription completed.'')],
           \<lparr>current_transcription_mode = ''bucket'', active_stream = False,
            calls = [TempFile, S3Upload, StartJob, GetJob, PollSleep, GetJob, Unlink]\<rparr>)"
proof -
  have m1: "transcription_error_message ''Could not connect to the endpoint URL''
      = ''Transcription failed: Could not connect to the endpoint URL''"
    by (simp add: transcription_error_message_def startswith_def)
  have m2: "transcription_error_message ''Transcription job failed: The media format is not valid''
      = ''Transcription failed: Transcription job failed: The media format is not valid''"
    by (simp add: transcription_error_message_def startswith_def)
  show ?thesis
    by (simp add: transcribe_audio_bytes_def transcribe_audio_bucket_def transcribe_audio_def
        has_credentials_def log_def m1 m2)
qed

section \<open>The streaming path: failure and fallback\<close>

text \<open>
  For audio of at least 100 bytes \<open>transcribe_audio_bytes\<close> is the path its mode selects,
  so what is proved below of \<open>_transcribe_audio_streaming\<close> holds of
  \<open>transcribe_audio_bytes\<close> in streaming mode.
\<close>

lemma transcribe_audio_bytes_paths:
  "100 \<le> length audio_data \<Longrightarrow>
     transcribe_audio_bytes w st audio_data
       = (if current_transcription_mode st = ''streaming''
          then transcribe_audio_streaming w st audio_data
          else transcribe_audio_bucket w st audio_data)"
  by (simp add: transcribe_audio_bytes_def)

text \<open>
  Stopping the session logs the call, ends the stream when one is active, and leaves no
  active stream unless ending it raised.
\<close>

lemma stop_live_transcription_state:
  "calls (snd (stop_live_transcription w st))
     = calls st @ StopLive # (if active_stream st then [EndStream] else [])
   \<and> (end_stream w = None \<longrightarrow> \<not> active_stream (snd (stop_live_transcription w st)))"
  by (simp add: stop_live_transcription_def log_def Let_def split: option.split)

lemma calls_log_funpow: "calls ((log c ^^ n) st) = calls st @ replicate n c"
  by (induction n) (simp_all add: log_def replicate_append_same)

lemma active_stream_log_funpow: "active_stream ((log c ^^ n) st) = active_stream st"
  by (induction n) (simp_all add: log_def)

subsection \<open>The callbacks\<close>

text \<open>Either callback marks the result as completed.\<close>

lemma fire_completed: "truthy (dget (fire d cb) ''completed'')"
  by (cases cb) (simp_all add: dget_def update_conv')

text \<open>The error callback records its error.\<close>

lemma fire_error:
  "dget (fire d (OnError e)) ''error'' = PStr e \<and> has_key (fire d (OnError e)) ''error''"
  by (simp add: dget_def has_key_def update_conv')

text \<open>The transcription callback leaves a recorded error where it is.\<close>

lemma fire_transcription_error:
  "dget (fire d (OnTranscription t)) ''error'' = dget d ''error''
   \<and> has_key (fire d (OnTranscription t)) ''error'' = has_key d ''error''"
  by (simp add: dget_def has_key_def update_conv')

lemma foldl_fire_transcriptions:
  "dget (foldl fire d (map OnTranscription ts)) ''error'' = dget d ''error''
   \<and> has_key (foldl fire d (map OnTranscription ts)) ''error'' = has_key d ''error''"
  by (induction ts arbitrary: d) (simp_all add: fire_transcription_error del: fire.simps)

lemma foldl_fire_completed:
  "cbs \<noteq> [] \<Longrightarrow> truthy (dget (foldl fire d cbs) ''completed'')"
  by (cases cbs rule: rev_cases) (simp_all add: fire_completed del: fire.simps)

text \<open>
  After a run of callbacks in which an error callback was fired and only transcription
  callbacks followed it, the result is completed and holds that error.
\<close>

lemma foldl_fire_last_error:
  "truthy (dget (foldl fire d (cbs0 @ OnError e # map OnTranscription ts)) ''completed'')
   \<and> has_key (foldl fire d (cbs0 @ OnError e # map OnTranscription ts)) ''error''
   \<and> dget (foldl fire d (cbs0 @ OnError e # map OnTranscription ts)) ''error'' = PStr e"
proof -
  have "truthy (dget (foldl fire d (cbs0 @ OnError e # map OnTranscription ts)) ''completed'')"
    by (rule foldl_fire_completed) simp
  moreover have "foldl fire d (cbs0 @ OnError e # map OnTranscription ts)
      = foldl fire (fire (foldl fire d cbs0) (OnError e)) (map OnTranscription ts)"
    by simp
  ultimately show ?thesis
    by (simp only: foldl_fire_transcriptions fire_error simp_thms)
qed

subsection \<open>The wait loop\<close>

text \<open>A result that is completed already is returned without a sleep.\<close>

lemma wait_loop_completed:
  "truthy (dget d ''completed'')
     \<Longrightarrow> wait_loop timeout t0 d ts st = Some (Callback_completed d, st)"
  by (cases ts) auto

text \<open>
  With nothing completed, the loop sleeps once for every clock reading within the
  timeout and leaves at the first reading beyond it.
\<close>

lemma wait_loop_timeout:
  assumes "\<not> truthy (dget d ''completed'')"
    and "\<forall>p\<in>set pre. snd p = None \<and> fst p - t0 \<le> real_of_int timeout"
    and "now - t0 > real_of_int timeout"
  shows "wait_loop timeout t0 d (pre @ (now, ev) # rest) st
           = Some (Timed_out, (log Sleep ^^ length pre) st)"
  using assms(2)
proof (induction pre arbitrary: st)
  case Nil
  show ?case using assms(1,3) by simp
next
  case (Cons p pre)
  obtain t e where p: "p = (t, e)" by (cases p)
  have e: "e = None" and t: "\<not> t - t0 > real_of_int timeout"
    using Cons.prems p by auto
  have rest_ok: "\<forall>p\<in>set pre. snd p = None \<and> fst p - t0 \<le> real_of_int timeout"
    using Cons.prems by simp
  have "wait_loop timeout t0 d ((p # pre) @ (now, ev) # rest) st
      = wait_loop timeout t0 d (pre @ (now, ev) # rest) (log Sleep st)"
    using assms(1) e t by (simp add: p)
  also have "\<dots> = Some (Timed_out, (log Sleep ^^ length pre) (log Sleep st))"
    using rest_ok by (rule Cons.IH)
  finally show ?case
    by (simp add: funpow_swap1)
qed

text \<open>
  With nothing completed, a callback that fires during the sleep of a turn whose clock
  reading is within the timeout ends the wait at the next test of the loop: the result it
  wrote is returned, after one sleep for that turn and each turn before it, whatever the
  later readings are and even if there is none.
\<close>

lemma wait_loop_callback:
  assumes "\<not> truthy (dget d ''completed'')"
    and "\<forall>p\<in>set pre. snd p = None \<and> fst p - t0 \<le> real_of_int timeout"
    and "now - t0 \<le> real_of_int timeout"
  shows "wait_loop timeout t0 d (pre @ (now, Some cb) # rest) st
           = Some (Callback_completed (fire d cb), (log Sleep ^^ Suc (length pre)) st)"
  using assms(2)
proof (induction pre arbitrary: st)
  case Nil
  have "wait_loop timeout t0 d ((now, Some cb) # rest) st
      = wait_loop timeout t0 (fire d cb) rest (log Sleep st)"
    using assms(1,3) by (simp del: fire.simps)
  also have "\<dots> = Some (Callback_completed (fire d cb), log Sleep st)"
    by (rule wait_loop_completed) (rule fire_completed)
  finally show ?case by simp
next
  case (Cons p pre)
  obtain t e where p: "p = (t, e)" by (cases p)
  have e: "e = None" and t: "\<not> t - t0 > real_of_int timeout"
    using Cons.prems p by auto
  have rest_ok: "\<forall>p\<in>set pre. snd p = None \<and> fst p - t0 \<le> real_of_int timeout"
    using Cons.prems by simp
  have "wait_loop timeout t0 d ((p # pre) @ (now, Some cb) # rest) st
      = wait_loop timeout t0 d (pre @ (now, Some cb) # rest) (log Sleep st)"
    using assms(1) e t by (simp add: p)
  also have "\<dots> = Some (Callback_completed (fire d cb), (log Sleep ^^ Suc (length pre)) (log Sleep st))"
    using rest_ok by (rule Cons.IH)
  finally show ?case
    by (simp add: funpow_swap1)
qed

lemma transcription_result_init_open:
  "\<not> truthy (dget transcription_result_init ''completed'')"
  by (simp add: transcription_result_init_def dget_def)

subsection \<open>Failure of the streaming attempt\<close>

text \<open>
  Claim C1. On the streaming path (credentials present, audio converted to PCM) the
  streaming attempt fails in four ways: the session cannot be started (the result of the
  streaming client is not a success), the streaming client raises, the error callback is
  fired while the streaming client runs (a transcription callback before or after it
  does not undo the error; the last error fired is the one kept), or the error callback
  is fired during a sleep of the wait loop, at a clock reading within the timeout. In
  each case the orchestrator invokes the bucket path and returns its result if
  \<open>ENABLE_STREAMING_FALLBACK\<close> is set; otherwise it returns the failure with the error of
  the streaming attempt, and the state it returns has no call of the bucket path: the
  new calls are the conversion, the start of the stream and, when the wait loop was
  entered, its sleeps and the stop of the session.
\<close>

theorem streaming_failure_fallback:
  "has_credentials w
     \<and> convert_to_pcm w audio_data (detect_audio_format audio_data) = Some pcm \<and> pcm \<noteq> []
   \<longrightarrow>
     (streaming_client_start w pcm = Some (Inr (cbs, stream_result))
        \<and> \<not> truthy (dget stream_result ''success'')
      \<longrightarrow> transcribe_audio_streaming w st audio_data
           = (if enable_streaming_fallback w
              then transcribe_audio_bucket w (log StartStreaming (log ConvertToPcm st)) audio_data
              else Some (failure_result
                           (dget_default stream_result ''error''
                              (PStr ''Streaming transcription failed'')),
                         log StartStreaming (log ConvertToPcm st))))
     \<and> (streaming_client_start w pcm = Some (Inl e)
      \<longrightarrow> transcribe_audio_streaming w st audio_data
           = (if enable_streaming_fallback w
              then transcribe_audio_bucket w (log StartStreaming (log ConvertToPcm st)) audio_data
              else Some (failure_result (PStr e), log StartStreaming (log ConvertToPcm st))))
     \<and> (streaming_client_start w pcm
          = Some (Inr (cbs0 @ OnError e # map OnTranscription ts, stream_result))
        \<and> truthy (dget stream_result ''success'')
      \<longrightarrow> transcribe_audio_streaming w st audio_data
           = (if enable_streaming_fallback w
              then transcribe_audio_bucket w
                     (snd (stop_live_transcription w (log StartStreaming (log ConvertToPcm st))))
                     audio_data
              else Some (failure_result (PStr e),
                     snd (stop_live_transcription w (log StartStreaming (log ConvertToPcm st)))))
          \<and> calls (snd (stop_live_transcription w (log StartStreaming (log ConvertToPcm st))))
              = calls st @ [ConvertToPcm, StartStreaming]
                  @ StopLive # (if active_stream st then [EndStream] else []))
     \<and> (streaming_client_start w pcm = Some (Inr ([], stream_result))
        \<and> truthy (dget stream_result ''success'')
        \<and> ticks w = pre @ (now, Some (OnError e)) # rest
        \<and> (\<forall>p\<in>set pre. snd p = None
              \<and> fst p - clock_start w \<le> real_of_int (streaming_timeout w))
        \<and> now - clock_start w \<le> real_of_int (streaming_timeout w)
      \<longrightarrow> transcribe_audio_streaming w st audio_data
           = (if enable_streaming_fallback w
              then transcribe_audio_bucket w
                     (snd (stop_live_transcription w
                        ((log Sleep ^^ Suc (length pre)) (log StartStreaming (log ConvertToPcm st)))))
                     audio_data
              else Some (failure_result (PStr e),
                     snd (stop_live_transcription w
                        ((log Sleep ^^ Suc (length pre)) (log StartStreaming (log ConvertToPcm st))))))
          \<and> calls (snd (stop_live_transcription w
                        ((log Sleep ^^ Suc (length pre)) (log StartStreaming (log ConvertToPcm st)))))
              = calls st @ [ConvertToPcm, StartStreaming] @ replicate (Suc (length pre)) Sleep
                  @ StopLive # (if active_stream st then [EndStream] else []))"
proof
  let ?st2 = "log StartStreaming (log ConvertToPcm st)"
  let ?st3 = "(log Sleep ^^ Suc (length pre)) ?st2"
  assume "has_credentials w
     \<and> convert_to_pcm w audio_data (detect_audio_format audio_data) = Some pcm \<and> pcm \<noteq> []"
  then have creds: "has_credentials w"
    and conv: "convert_to_pcm w audio_data (detect_audio_format audio_data) = Some pcm"
    and ne: "pcm \<noteq> []"
    by blast+
  have a: "transcribe_audio_streaming w st audio_data
           = (if enable_streaming_fallback w
              then transcribe_audio_bucket w ?st2 audio_data
              else Some (failure_result
                           (dget_default stream_result ''error''
                              (PStr ''Streaming transcription failed'')), ?st2))"
    if "streaming_client_start w pcm = Some (Inr (cbs, stream_result))
        \<and> \<not> truthy (dget stream_result ''success'')"
    using that creds ne by (simp add: transcribe_audio_streaming_def Let_def conv)
  have b: "transcribe_audio_streaming w st audio_data
           = (if enable_streaming_fallback w
              then transcribe_audio_bucket w ?st2 audio_data
              else Some (failure_result (PStr e), ?st2))"
    if "streaming_client_start w pcm = Some (Inl e)"
    using that creds ne by (simp add: transcribe_audio_streaming_def Let_def conv)
  have c: "transcribe_audio_streaming w st audio_data
           = (if enable_streaming_fallback w
              then transcribe_audio_bucket w (snd (stop_live_transcription w ?st2)) audio_data
              else Some (failure_result (PStr e), snd (stop_live_transcription w ?st2)))
          \<and> calls (snd (stop_live_transcription w ?st2))
              = calls st @ [ConvertToPcm, StartStreaming]
                  @ StopLive # (if active_stream st then [EndStream] else [])"
    if h: "streaming_client_start w pcm
          = Some (Inr (cbs0 @ OnError e # map OnTranscription ts, stream_result))
        \<and> truthy (dget stream_result ''success'')"
  proof -
    let ?d = "foldl fire transcription_result_init (cbs0 @ OnError e # map OnTranscription ts)"
    from h have start: "streaming_client_start w pcm
          = Some (Inr (cbs0 @ OnError e # map OnTranscription ts, stream_result))"
      and ok: "truthy (dget stream_result ''success'')"
      by blast+
    have d: "truthy (dget ?d ''completed'')" "has_key ?d ''error''" "dget ?d ''error'' = PStr e"
      using foldl_fire_last_error [of transcription_result_init cbs0 e ts] by blast+
    have wl: "wait_loop (streaming_timeout w) (clock_start w) ?d (ticks w) ?st2
        = Some (Callback_completed ?d, ?st2)"
      using d(1) by (rule wait_loop_completed)
    have r: "transcribe_audio_streaming w st audio_data
           = (if enable_streaming_fallback w
              then transcribe_audio_bucket w (snd (stop_live_transcription w ?st2)) audio_data
              else Some (failure_result (PStr e), snd (stop_live_transcription w ?st2)))"
      using creds ne ok d(2)
      by (simp add: transcribe_audio_streaming_def Let_def conv start wl d(3) del: foldl_append)
    have s: "calls (snd (stop_live_transcription w ?st2))
              = calls st @ [ConvertToPcm, StartStreaming]
                  @ StopLive # (if active_stream st then [EndStream] else [])"
      using stop_live_transcription_state [of w ?st2] by (simp add: log_def)
    from r s show ?thesis by blast
  qed
  have d: "transcribe_audio_streaming w st audio_data
           = (if enable_streaming_fallback w
              then transcribe_audio_bucket w (snd (stop_live_transcription w ?st3)) audio_data
              else Some (failure_result (PStr e), snd (stop_live_transcription w ?st3)))
          \<and> calls (snd (stop_live_transcription w ?st3))
              = calls st @ [ConvertToPcm, StartStreaming] @ replicate (Suc (length pre)) Sleep
                  @ StopLive # (if active_stream st then [EndStream] else [])"
    if h: "streaming_client_start w pcm = Some (Inr ([], stream_result))
        \<and> truthy (dget stream_result ''success'')
        \<and> ticks w = pre @ (now, Some (OnError e)) # rest
        \<and> (\<forall>p\<in>set pre. snd p = None
              \<and> fst p - clock_start w \<le> real_of_int (streaming_timeout w))
        \<and> now - clock_start w \<le> real_of_int (streaming_timeout w)"
  proof -
    let ?d = "fire transcription_result_init (OnError e)"
    from h have start: "streaming_client_start w pcm = Some (Inr ([], stream_result))"
      and ok: "truthy (dget stream_result ''success'')"
      and tk: "ticks w = pre @ (now, Some (OnError e)) # rest"
      and quiet: "\<forall>p\<in>set pre. snd p = None
              \<and> fst p - clock_start w \<le> real_of_int (streaming_timeout w)"
      and intime: "now - clock_start w \<le> real_of_int (streaming_timeout w)"
      by blast+
    have wl: "wait_loop (streaming_timeout w) (clock_start w) transcription_result_init (ticks w) ?st2
        = Some (Callback_completed ?d, ?st3)"
      unfolding tk using transcription_result_init_open quiet intime by (rule wait_loop_callback)
    have e: "has_key ?d ''error''" "dget ?d ''error'' = PStr e"
      using fire_error [of transcription_result_init e] by blast+
    have r: "transcribe_audio_streaming w st audio_data
           = (if enable_streaming_fallback w
              then transcribe_audio_bucket w (snd (stop_live_transcription w ?st3)) audio_data
              else Some (failure_result (PStr e), snd (stop_live_transcription w ?st3)))"
      using creds ne ok e(1)
      by (simp add: transcribe_audio_streaming_def Let_def conv start wl e(2)
          del: fire.simps funpow.simps)
    have "calls ?st3 = calls st @ [ConvertToPcm, StartStreaming] @ replicate (Suc (length pre)) Sleep"
      by (simp only: calls_log_funpow) (simp add: log_def)
    moreover have "active_stream ?st3 = active_stream st"
      by (simp only: active_stream_log_funpow) (simp add: log_def)
    ultimately have s: "calls (snd (stop_live_transcription w ?st3))
              = calls st @ [ConvertToPcm, StartStreaming] @ replicate (Suc (length pre)) Sleep
                  @ StopLive # (if active_stream st then [EndStream] else [])"
      using stop_live_transcription_state [of w ?st3] by (simp del: funpow.simps replicate.simps)
    from r s show ?thesis by blast
  qed
  from a b c d show "(streaming_client_start w pcm = Some (Inr (cbs, stream_result))
        \<and> \<not> truthy (dget stream_result ''success'')
      \<longrightarrow> transcribe_audio_streaming w st audio_data
           = (if enable_streaming_fallback w
              then transcribe_audio_bucket w ?st2 audio_data
              else Some (failure_result
                           (dget_default stream_result ''error''
                              (PStr ''Streaming transcription failed'')), ?st2)))
     \<and> (streaming_client_start w pcm = Some (Inl e)
      \<longrightarrow> transcribe_audio_streaming w st audio_data
           = (if enable_streaming_fallback w
              then transcribe_audio_bucket w ?st2 audio_data
              else Some (failure_result (PStr e), ?st2)))
     \<and> (streaming_client_start w pcm
          = Some (Inr (cbs0 @ OnError e # map OnTranscription ts, stream_result))
        \<and> truthy (dget stream_result ''success'')
      \<longrightarrow> transcribe_audio_streaming w st audio_data
           = (if enable_streaming_fallback w
              then transcribe_audio_bucket w (snd (stop_live_transcription w ?st2)) audio_data
              else Some (failure_result (PStr e), snd (stop_live_transcription w ?st2)))
          \<and> calls (snd (stop_live_transcription w ?st2))
              = calls st @ [ConvertToPcm, StartStreaming]
                  @ StopLive # (if active_stream st then [EndStream] else []))
     \<and> (streaming_client_start w pcm = Some (Inr ([], stream_result))
        \<and> truthy (dget stream_result ''success'')
        \<and> ticks w = pre @ (now, Some (OnError e)) # rest
        \<and> (\<forall>p\<in>set pre. snd p = None
              \<and> fst p - clock_start w \<le> real_of_int (streaming_timeout w))
        \<and> now - clock_start w \<le> real_of_int (streaming_timeout w)
      \<longrightarrow> transcribe_audio_streaming w st audio_data
           = (if enable_streaming_fallback w
              then transcribe_audio_bucket w (snd (stop_live_transcription w ?st3)) audio_data
              else Some (failure_result (PStr e), snd (stop_live_transcription w ?st3)))
          \<and> calls (snd (stop_live_transcription w ?st3))
              = calls st @ [ConvertToPcm, StartStreaming] @ replicate (Suc (length pre)) Sleep
                  @ StopLive # (if active_stream st then [EndStream] else []))"
    by blast
qed

text \<open>
  A client that cannot open a session for one input, raises for another, delivers an
  error between two partial transcriptions for a third, and for a fourth ends quietly
  while the error arrives during the second sleep of the wait; without fallback each
  error comes back as it is, with fallback the bucket path answers.
\<close>

theorem streaming_failure_fallback_witness:
  "transcribe_audio_streaming
      \<lparr>aws_access_key_id = Some ''AKIAEXAMPLE'', aws_secret_access_key = Some ''secret'',
       enable_streaming_fallback = False, streaming_timeout = 30,
       external_convert = (\<lambda>a f. Some a),
       streaming_client_start = (\<lambda>p.
          if p = ''no session'' then Some (Inr (start_streaming_transcription
               \<lparr>open_stream = Some ''connection refused'', fired = [], gather_raises = None,
                session_id = ''s-1''\<rparr>))
          else if p = ''raises'' then Some (Inl ''unexpected'')
          else if p = ''late error'' then Some (Inr (start_streaming_transcription
               \<lparr>open_stream = None, fired = [], gather_raises = None, session_id = ''s-2''\<rparr>))
          else Some (Inr (start_streaming_transcription
               \<lparr>open_stream = None,
                fired = [OnTranscription ''hel'', OnError ''stream broke'', OnTranscription ''hello''],
                gather_raises = None, session_id = ''s-3''\<rparr>))),
       clock_start = 0, ticks = [(1 / 10, None), (2 / 10, Some (OnError ''connection lost''))],
       end_stream = None, tempfile_create = None, upload_file = None,
       start_transcription_job = None, polls = [Completed (Inr ''hello world'')],
       unlink = None\<rparr>
      \<lparr>current_transcription_mode = ''streaming'', active_stream = False, calls = []\<rparr> ''no session''
   = Some ([(''success'', PBool False), (''error'', PStr ''connection refused''), (''transcription'', PNone)],
           \<lparr>current_transcription_mode = ''streaming'', active_stream = False,
            calls = [ConvertToPcm, StartStreaming]\<rparr>)
   \<and> transcribe_audio_streaming
      \<lparr>aws_access_key_id = Some ''AKIAEXAMPLE'', aws_secret_access_key = Some ''secret'',
       enable_streaming_fallback = False, streaming_timeout = 30,
       external_convert = (\<lambda>a f. Some a),
       streaming_client_start = (\<lambda>p.
          if p = ''no session'' then Some (Inr (start_streaming_transcription
               \<lparr>open_stream = Some ''connection refused'', fired = [], gather_raises = None,
                session_id = ''s-1''\<rparr>))
          else if p = ''raises'' then Some (Inl ''unexpected'')
          else if p = ''late error'' then Some (Inr (start_streaming_transcription
               \<lparr>open_stream = None, fired = [], gather_raises = None, session_id = ''s-2''\<rparr>))
          else Some (Inr (start_streaming_transcription
               \<lparr>open_stream = None,
                fired = [OnTranscription ''hel'', OnError ''stream broke'', OnTranscription ''hello''],
                gather_raises = None, session_id = ''s-3''\<rparr>))),
       clock_start = 0, ticks = [(1 / 10, None), (2 / 10, Some (OnError ''connection lost''))],
       end_stream = None, tempfile_create = None, upload_file = None,
       start_transcription_job = None, polls = [Completed (Inr ''hello world'')],
       unlink = None\<rparr>
      \<lparr>current_transcription_mode = ''streaming'', active_stream = False, calls = []\<rparr> ''raises''
   = Some ([(''success'', PBool False), (''error'', PStr ''unexpected''), (''transcription'', PNone)],
           \<lparr>current_transcription_mode = ''streaming'', active_stream = False,
            calls = [ConvertToPcm, StartStreaming]\<rparr>)
   \<and> transcribe_audio_streaming
      \<lparr>aws_access_key_id = Some ''AKIAEXAMPLE'', aws_secret_access_key = Some ''secret'',
       enable_streaming_fallback = False, streaming_timeout = 30,
       external_convert = (\<lambda>a f. Some a),
       streaming_client_start = (\<lambda>p.
          if p = ''no session'' then Some (Inr (start_streaming_transcription
               \<lparr>open_stream = Some ''connection refused'', fired = [], gather_raises = None,
                session_id = ''s-1''\<rparr>))
          else if p = ''raises'' then Some (Inl ''unexpected'')
          else if p = ''late error'' then Some (Inr (start_streaming_transcription
               \<lparr>open_stream = None, fired = [], gather_raises = None, session_id = ''s-2''\<rparr>))
          else Some (Inr (start_streaming_transcription
               \<lparr>open_stream = None,
                fired = [OnTranscription ''hel'', OnError ''stream broke'', OnTranscription ''hello''],
                gather_raises = None, session_id = ''s-3''\<rparr>))),
       clock_start = 0, ticks = [(1 / 10, None), (2 / 10, Some (OnError ''connection lost''))],
       end_stream = None, tempfile_create = None, upload_file = None,
       start_transcription_job = None, polls = [Completed (Inr ''hello world'')],
       unlink = None\<rparr>
      \<lparr>current_transcription_mode = ''streaming'', active_stream = False, calls = []\<rparr> ''broken stream''
   = Some ([(''success'', PBool False), (''error'', PStr ''stream broke''), (''transcription'', PNone)],
           \<lparr>current_transcription_mode = ''streaming'', active_stream = False,
            calls = [ConvertToPcm, StartStreaming, StopLive]\<rparr>)
   \<and> transcribe_audio_streaming
      \<lparr>aws_access_key_id = Some ''AKIAEXAMPLE'', aws_secret_access_key = Some ''secret'',
       enable_streaming_fallback = False, streaming_timeout = 30,
       external_convert = (\<lambda>a f. Some a),
       streaming_client_start = (\<lambda>p.
          if p = ''no session'' then Some (Inr (start_streaming_transcription
               \<lparr>open_stream = Some ''connection refused'', fired = [], gather_raises = None,
                session_id = ''s-1''\<rparr>))
          else if p = ''raises'' then Some (Inl ''unexpected'')
          else if p = ''late error'' then Some (Inr (start_streaming_transcription
               \<lparr>open_stream = None, fired = [], gather_raises = None, session_id = ''s-2''\<rparr>))
          else Some (Inr (start_streaming_transcription
               \<lparr>open_stream = None,
                fired = [OnTranscription ''hel'', OnError ''stream broke'', OnTranscription ''hello''],
                gather_raises = None, session_id = ''s-3''\<rparr>))),
       clock_start = 0, ticks = [(1 / 10, None), (2 / 10, Some (OnError ''connection lost''))],
       end_stream = None, tempfile_create = None, upload_file = None,
       start_transcription_job = None, polls = [Completed (Inr ''hello world'')],
       unlink = None\<rparr>
      \<lparr>current_transcription_mode = ''streaming'', active_stream = False, calls = []\<rparr> ''late error''
   = Some ([(''success'', PBool False), (''error'', PStr ''connection lost''), (''transcription'', PNone)],
           \<lparr>current_transcription_mode = ''streaming'', active_stream = False,
            calls = [ConvertToPcm, StartStreaming, Sleep, Sleep, StopLive]\<rparr>)
   \<and> transcribe_audio_streaming
      \<lparr>aws_access_key_id = Some ''AKIAEXAMPLE'', aws_secret_access_key = Some ''secret'',
       enable_streaming_fallback = True, streaming_timeout = 30,
       external_convert = (\<lambda>a f. Some a),
       streaming_client_start = (\<lambda>p.
          if p = ''no session'' then Some (Inr (start_streaming_transcription
               \<lparr>open_stream = Some ''connection refused'', fired = [], gather_raises = None,
                session_id = ''s-1''\<rparr>))
          else if p = ''raises'' then Some (Inl ''unexpected'')
          else if p = ''late error'' then Some (Inr (start_streaming_transcription
               \<lparr>open_stream = None, fired = [], gather_raises = None, session_id = ''s-2''\<rparr>))
          else Some (Inr (start_streaming_transcription
               \<lparr>open_stream = None,
                fired = [OnTranscription ''hel'', OnError ''stream broke'', OnTranscription ''hello''],
                gather_raises = None, session_id = ''s-3''\<rparr>))),
       clock_start = 0, ticks = [(1 / 10, None), (2 / 10, Some (OnError ''connection lost''))],
       end_stream = None, tempfile_create = None, upload_file = None,
       start_transcription_job = None, polls = [Completed (Inr ''hello world'')],
       unlink = None\<rparr>
      \<lparr>current_transcription_mode = ''streaming'', active_stream = False, calls = []\<rparr> ''broken stream''
   = Some ([(''success'', PBool True), (''transcription'', PStr ''hello world''),
            (''note'', PStr ''Bucket-based transcription completed.'')],
           \<lparr>current_transcription_mode = ''streaming'', active_stream = False,
            calls = [ConvertToPcm, StartStreaming, StopLive,
                     TempFile, S3Upload, StartJob, GetJob, FetchTranscript, S3Delete, Unlink]\<rparr>)"
proof -
  let ?w = "\<lambda>b. \<lparr>aws_access_key_id = Some ''AKIAEXAMPLE'', aws_secret_access_key = Some ''secret'',
       enable_streaming_fallback = b, streaming_timeout = 30,
       external_convert = (\<lambda>a f. Some a),
       streaming_client_start = (\<lambda>p.
          if p = ''no session'' then Some (Inr (start_streaming_transcription
               \<lparr>open_stream = Some ''connection refused'', fired = [], gather_raises = None,
                session_id = ''s-1''\<rparr>))
          else if p = ''raises'' then Some (Inl ''unexpected'')
          else if p = ''late error'' then Some (Inr (start_streaming_transcription
               \<lparr>open_stream = None, fired = [], gather_raises = None, session_id = ''s-2''\<rparr>))
          else Some (Inr (start_streaming_transcription
               \<lparr>open_stream = None,
                fired = [OnTranscription ''hel'', OnError ''stream broke'', OnTranscription ''hello''],
                gather_raises = None, session_id = ''s-3''\<rparr>))),
       clock_start = 0, ticks = [(1 / 10, None), (2 / 10, Some (OnError ''connection lost''))],
       end_stream = None, tempfile_create = None, upload_file = None,
       start_transcription_job = None, polls = [Completed (Inr ''hello world'')],
       unlink = None\<rparr>"
  let ?st = "\<lparr>current_transcription_mode = ''streaming'', active_stream = False, calls = []\<rparr>"
  let ?st2 = "\<lparr>current_transcription_mode = ''streaming'', active_stream = False,
               calls = [ConvertToPcm, StartStreaming]\<rparr>"
  let ?st3 = "\<lparr>current_transcription_mode = ''streaming'', active_stream = False,
               calls = [ConvertToPcm, StartStreaming, StopLive]\<rparr>"
  let ?st4 = "\<lparr>current_transcription_mode = ''streaming'', active_stream = False,
               calls = [ConvertToPcm, StartStreaming, Sleep, Sleep, StopLive]\<rparr>"
  let ?refused = "[(''success'', PBool False), (''error'', PStr ''connection refused'')]"
  let ?done2 = "[(''success'', PBool True), (''message'', PStr ''Streaming transcription completed''),
                (''session_id'', PStr ''s-2'')]"
  let ?done3 = "[(''success'', PBool True), (''message'', PStr ''Streaming transcription completed''),
                (''session_id'', PStr ''s-3'')]"
  let ?pre = "[(1 / 10, None)] :: (real \<times> callback option) list"
  have det: "detect_audio_format ''no session'' = ''webm''" "detect_audio_format ''raises'' = ''webm''"
      "detect_audio_format ''broken stream'' = ''webm''" "detect_audio_format ''late error'' = ''webm''"
    by (simp_all add: detect_audio_format_def startswith_def slice_def)
  have lg: "log StartStreaming (log ConvertToPcm ?st) = ?st2"
    by (simp add: log_def)
  have stop: "snd (stop_live_transcription (?w b) ?st2) = ?st3" for b
    by (simp add: stop_live_transcription_def log_def Let_def)
  have stop4: "snd (stop_live_transcription (?w b) ((log Sleep ^^ Suc (length ?pre)) ?st2)) = ?st4" for b
    by (simp add: stop_live_transcription_def log_def Let_def)
  have pre: "has_credentials (?w b)
     \<and> convert_to_pcm (?w b) a (detect_audio_format a) = Some a \<and> a \<noteq> []"
    if "detect_audio_format a = ''webm''" "a \<noteq> []" for a b
    using that by (simp add: has_credentials_def convert_to_pcm_def)
  have s1: "streaming_client_start (?w b) ''no session'' = Some (Inr ([], ?refused))
        \<and> \<not> truthy (dget ?refused ''success'')" for b
    by (simp add: start_streaming_transcription_def dget_def)
  have s2: "streaming_client_start (?w b) ''raises'' = Some (Inl ''unexpected'')" for b
    by simp
  have s3: "streaming_client_start (?w b) ''broken stream''
          = Some (Inr ([OnTranscription ''hel''] @ OnError ''stream broke''
                         # map OnTranscription [''hello''], ?done3))
        \<and> truthy (dget ?done3 ''success'')" for b
    by (simp add: start_streaming_transcription_def dget_def)
  have s4: "streaming_client_start (?w b) ''late error'' = Some (Inr ([], ?done2))
        \<and> truthy (dget ?done2 ''success'')
        \<and> ticks (?w b) = ?pre @ (2 / 10, Some (OnError ''connection lost'')) # []
        \<and> (\<forall>p\<in>set ?pre. snd p = None
              \<and> fst p - clock_start (?w b) \<le> real_of_int (streaming_timeout (?w b)))
        \<and> 2 / 10 - clock_start (?w b) \<le> real_of_int (streaming_timeout (?w b))" for b
    by (simp add: start_streaming_transcription_def dget_def)
  have e1: "dget_default ?refused ''error'' (PStr ''Streaming transcription failed'')
      = PStr ''connection refused''"
    by (simp add: dget_default_def)
  have bucket: "transcribe_audio_bucket (?w True) ?st3 ''broken stream''
      = Some ([(''success'', PBool True), (''transcription'', PStr ''hello world''),
            (''note'', PStr ''Bucket-based transcription completed.'')],
           \<lparr>current_transcription_mode = ''streaming'', active_stream = False,
            calls = [ConvertToPcm, StartStreaming, StopLive,
                     TempFile, S3Upload, StartJob, GetJob, FetchTranscript, S3Delete, Unlink]\<rparr>)"
    by (simp add: transcribe_audio_bucket_def transcribe_audio_def has_credentials_def log_def)
  from streaming_failure_fallback [of "?w False" "''no session''" "''no session''" "[]" ?refused
      ?st "''x''" "[]" "[]" "[]" 0 "[]"] pre [of "''no session''" False] det(1) s1 [of False]
  have r1: "transcribe_audio_streaming (?w False) ?st ''no session''
      = (if enable_streaming_fallback (?w False)
         then transcribe_audio_bucket (?w False) (log StartStreaming (log ConvertToPcm ?st))
                ''no session''
         else Some (failure_result
                      (dget_default ?refused ''error'' (PStr ''Streaming transcription failed'')),
                    log StartStreaming (log ConvertToPcm ?st)))"
    by blast
  from streaming_failure_fallback [of "?w False" "''raises''" "''raises''" "[]" ?refused
      ?st "''unexpected''" "[]" "[]" "[]" 0 "[]"] pre [of "''raises''" False] det(2) s2 [of False]
  have r2: "transcribe_audio_streaming (?w False) ?st ''raises''
      = (if enable_streaming_fallback (?w False)
         then transcribe_audio_bucket (?w False) (log StartStreaming (log ConvertToPcm ?st))
                ''raises''
         else Some (failure_result (PStr ''unexpected''),
                    log StartStreaming (log ConvertToPcm ?st)))"
    by blast
  from streaming_failure_fallback [of "?w False" "''broken stream''" "''broken stream''" "[]"
      ?done3 ?st "''stream broke''" "[OnTranscription ''hel'']" "[''hello'']" "[]" 0 "[]"]
    pre [of "''broken stream''" False] det(3) s3 [of False]
  have r3: "transcribe_audio_streaming (?w False) ?st ''broken stream''
      = (if enable_streaming_fallback (?w False)
         then transcribe_audio_bucket (?w False)
                (snd (stop_live_transcription (?w False) (log StartStreaming (log ConvertToPcm ?st))))
                ''broken stream''
         else Some (failure_result (PStr ''stream broke''),
                snd (stop_live_transcription (?w False) (log StartStreaming (log ConvertToPcm ?st)))))"
    by blast
  from streaming_failure_fallback [of "?w False" "''late error''" "''late error''" "[]"
      ?done2 ?st "''connection lost''" "[]" "[]" ?pre "2 / 10" "[]"]
    pre [of "''late error''" False] det(4) s4 [of False]
  have r4: "transcribe_audio_streaming (?w False) ?st ''late error''
      = (if enable_streaming_fallback (?w False)
         then transcribe_audio_bucket (?w False)
                (snd (stop_live_transcription (?w False)
                   ((log Sleep ^^ Suc (length ?pre)) (log StartStreaming (log ConvertToPcm ?st)))))
                ''late error''
         else Some (failure_result (PStr ''connection lost''),
                snd (stop_live_transcription (?w False)
                   ((log Sleep ^^ Suc (length ?pre)) (log StartStreaming (log ConvertToPcm ?st))))))"
    by blast
  from streaming_failure_fallback [of "?w True" "''broken stream''" "''broken stream''" "[]"
      ?done3 ?st "''stream broke''" "[OnTranscription ''hel'']" "[''hello'']" "[]" 0 "[]"]
    pre [of "''broken stream''" True] det(3) s3 [of True]
  have r5: "transcribe_audio_streaming (?w True) ?st ''broken stream''
      = (if enable_streaming_fallback (?w True)
         then transcribe_audio_bucket (?w True)
                (snd (stop_live_transcription (?w True) (log StartStreaming (log ConvertToPcm ?st))))
                ''broken stream''
         else Some (failure_result (PStr ''stream broke''),
                snd (stop_live_transcription (?w True) (log StartStreaming (log ConvertToPcm ?st)))))"
    by blast
  have q1: "transcribe_audio_streaming (?w False) ?st ''no session''
      = Some (failure_result (PStr ''connection refused''), ?st2)"
    unfolding r1 e1 lg by simp
  have q2: "transcribe_audio_streaming (?w False) ?st ''raises''
      = Some (failure_result (PStr ''unexpected''), ?st2)"
    unfolding r2 lg by simp
  have q3: "transcribe_audio_streaming (?w False) ?st ''broken stream''
      = Some (failure_result (PStr ''stream broke''), ?st3)"
    unfolding r3 lg stop by simp
  have q4: "transcribe_audio_streaming (?w False) ?st ''late error''
      = Some (failure_result (PStr ''connection lost''), ?st4)"
    unfolding r4 lg stop4 by simp
  have q5: "transcribe_audio_streaming (?w True) ?st ''broken stream''
      = transcribe_audio_bucket (?w True) ?st3 ''broken stream''"
    unfolding r5 lg stop by simp
  show ?thesis
    unfolding q1 q2 q3 q4 q5 bucket by (simp add: failure_result_def)
qed

section \<open>The streaming path: the timeout\<close>

text \<open>
  While the call of the streaming client has not returned, neither has the streaming
  path, whatever the timeout, the clock and the fallback flag are: the call is awaited
  before \<open>start_time\<close> is read, so no clock reading is compared with the timeout.
\<close>

lemma streaming_start_not_returning:
  "has_credentials w \<Longrightarrow>
   convert_to_pcm w audio_data (detect_audio_format audio_data) = Some pcm \<Longrightarrow> pcm \<noteq> [] \<Longrightarrow>
   streaming_client_start w pcm = None \<Longrightarrow>
     transcribe_audio_streaming w st audio_data = None"
  by (simp add: transcribe_audio_streaming_def Let_def)

text \<open>
  Once the call of the streaming client has returned with no callback fired, the wait
  loop is left at the first clock reading beyond the timeout, after one sleep for each
  earlier reading; then \<open>stop_live_transcription\<close> is called and the bucket path is
  invoked (fallback set) or the failure \<open>"Streaming transcription timeout"\<close> is returned.
  The streaming path never sets \<open>active_stream\<close>, so the stop finds the session that was
  live before the call, if there was one, and no session otherwise.
\<close>

lemma streaming_timeout_after_stream_end:
  assumes "has_credentials w"
    and "convert_to_pcm w audio_data (detect_audio_format audio_data) = Some pcm" "pcm \<noteq> []"
    and "streaming_client_start w pcm = Some (Inr ([], stream_result))"
    and "truthy (dget stream_result ''success'')"
    and "ticks w = pre @ (now, ev) # rest"
    and "\<forall>p\<in>set pre. snd p = None \<and> fst p - clock_start w \<le> real_of_int (streaming_timeout w)"
    and "now - clock_start w > real_of_int (streaming_timeout w)"
  shows "transcribe_audio_streaming w st audio_data
       = (if enable_streaming_fallback w
          then transcribe_audio_bucket w
                 (snd (stop_live_transcription w
                    ((log Sleep ^^ length pre) (log StartStreaming (log ConvertToPcm st)))))
                 audio_data
          else Some (failure_result (PStr ''Streaming transcription timeout''),
                 snd (stop_live_transcription w
                    ((log Sleep ^^ length pre) (log StartStreaming (log ConvertToPcm st))))))"
    and "active_stream ((log Sleep ^^ length pre) (log StartStreaming (log ConvertToPcm st)))
       = active_stream st"
proof -
  let ?st2 = "log StartStreaming (log ConvertToPcm st)"
  let ?st3 = "(log Sleep ^^ length pre) ?st2"
  have wl: "wait_loop (streaming_timeout w) (clock_start w) transcription_result_init (ticks w) ?st2
      = Some (Timed_out, ?st3)"
    unfolding assms(6) using transcription_result_init_open assms(7,8) by (rule wait_loop_timeout)
  show "transcribe_audio_streaming w st audio_data
       = (if enable_streaming_fallback w
          then transcribe_audio_bucket w (snd (stop_live_transcription w ?st3)) audio_data
          else Some (failure_result (PStr ''Streaming transcription timeout''),
                 snd (stop_live_transcription w ?st3)))"
    using assms(1,3,5)
    by (simp add: transcribe_audio_streaming_def Let_def assms(2,4) wl)
  show "active_stream ?st3 = active_stream st"
    by (simp add: active_stream_log_funpow log_def)
qed

text \<open>A stop with no live session ends nothing: it reports that there is no session.\<close>

lemma stop_live_transcription_no_session:
  "\<not> active_stream st \<Longrightarrow>
     stop_live_transcription w st
       = ([(''success'', PBool False), (''error'', PStr ''No active session to stop'')],
          log StopLive st)"
  by (simp add: stop_live_transcription_def Let_def log_def)

text \<open>
  Claim C2 says that a streaming attempt in which no callback fires within
  \<open>STREAMING_TIMEOUT\<close> is ended at the timeout: the active session is stopped, and the
  bucket path is invoked or the timeout failure returned. The code does not do that.
  The timeout is read and tested only in the loop that follows the awaited call of the
  streaming client, and that call returns only when the stream of the session has ended.
  With streaming mode, credentials, a timeout of 30 seconds and 100 bytes of audio:

  \<^item> for a session whose stream is never closed by the service and delivers no result,
    \<open>transcribe_audio_bytes\<close> does not return, with the fallback set and without it, also
    for clock readings beyond the timeout: no session is stopped, the bucket path is not
    invoked and no timeout failure is returned;

  \<^item> for a session that has ended with no result, the loop then waits for the timeout to
    pass, three sleeps here, and the stop that follows finds no session to stop;

  \<^item> were a live session of the client active before the call, that session is the one
    the stop would end.
\<close>

theorem streaming_timeout_not_enforced:
  "transcribe_audio_bytes
      \<lparr>aws_access_key_id = Some ''AKIAEXAMPLE'', aws_secret_access_key = Some ''secret'',
       enable_streaming_fallback = True, streaming_timeout = 30,
       external_convert = (\<lambda>a f. Some ''pcm samples''),
       streaming_client_start = (\<lambda>p. None),
       clock_start = 0,
       ticks = [(1 / 10, None), (15, None), (30, None), (301 / 10, None)],
       end_stream = None, tempfile_create = None, upload_file = None,
       start_transcription_job = None, polls = [Completed (Inr ''hello world'')],
       unlink = None\<rparr>
      \<lparr>current_transcription_mode = ''streaming'', active_stream = False,
        calls = []\<rparr>
      (replicate 100 (CHR ''a'')) = None
   \<and> transcribe_audio_bytes
      \<lparr>aws_access_key_id = Some ''AKIAEXAMPLE'', aws_secret_access_key = Some ''secret'',
       enable_streaming_fallback = False, streaming_timeout = 30,
       external_convert = (\<lambda>a f. Some ''pcm samples''),
       streaming_client_start = (\<lambda>p. None),
       clock_start = 0,
       ticks = [(1 / 10, None), (15, None), (30, None), (301 / 10, None)],
       end_stream = None, tempfile_create = None, upload_file = None,
       start_transcription_job = None, polls = [Completed (Inr ''hello world'')],
       unlink = None\<rparr>
      \<lparr>current_transcription_mode = ''streaming'', active_stream = False,
        calls = []\<rparr>
      (replicate 100 (CHR ''a'')) = None
   \<and> transcribe_audio_bytes
      \<lparr>aws_access_key_id = Some ''AKIAEXAMPLE'', aws_secret_access_key = Some ''secret'',
       enable_streaming_fallback = False, streaming_timeout = 30,
       external_convert = (\<lambda>a f. Some ''pcm samples''),
       streaming_client_start = (\<lambda>p. Some (Inr (start_streaming_transcription
          \<lparr>open_stream = None, fired = [], gather_raises = None, session_id = ''s-1''\<rparr>))),
       clock_start = 0,
       ticks = [(1 / 10, None), (15, None), (30, None), (301 / 10, None)],
       end_stream = None, tempfile_create = None, upload_file = None,
       start_transcription_job = None, polls = [Completed (Inr ''hello world'')],
       unlink = None\<rparr>
      \<lparr>current_transcription_mode = ''streaming'', active_stream = False,
        calls = []\<rparr>
      (replicate 100 (CHR ''a''))
   = Some ([(''success'', PBool False), (''error'', PStr ''Streaming transcription timeout''),
            (''transcription'', PNone)],
       \<lparr>current_transcription_mode = ''streaming'', active_stream = False,
        calls = [ConvertToPcm, StartStreaming, Sleep, Sleep, Sleep, StopLive]\<rparr>)
   \<and> stop_live_transcription
      \<lparr>aws_access_key_id = Some ''AKIAEXAMPLE'', aws_secret_access_key = Some ''secret'',
       enable_streaming_fallback = False, streaming_timeout = 30,
       external_convert = (\<lambda>a f. Some ''pcm samples''),
       streaming_client_start = (\<lambda>p. Some (Inr (start_streaming_transcription
          \<lparr>open_stream = None, fired = [], gather_raises = None, session_id = ''s-1''\<rparr>))),
       clock_start = 0,
       ticks = [(1 / 10, None), (15, None), (30, None), (301 / 10, None)],
       end_stream = None, tempfile_create = None, upload_file = None,
       start_transcription_job = None, polls = [Completed (Inr ''hello world'')],
       unlink = None\<rparr>
      \<lparr>current_transcription_mode = ''streaming'', active_stream = False,
        calls = [ConvertToPcm, StartStreaming, Sleep, Sleep, Sleep]\<rparr>
   = ([(''success'', PBool False), (''error'', PStr ''No active session to stop'')],
       \<lparr>current_transcription_mode = ''streaming'', active_stream = False,
        calls = [ConvertToPcm, StartStreaming, Sleep, Sleep, Sleep, StopLive]\<rparr>)
   \<and> transcribe_audio_bytes
      \<lparr>aws_access_key_id = Some ''AKIAEXAMPLE'', aws_secret_access_key = Some ''secret'',
       enable_streaming_fallback = False, streaming_timeout = 30,
       external_convert = (\<lambda>a f. Some ''pcm samples''),
       streaming_client_start = (\<lambda>p. Some (Inr (start_streaming_transcription
          \<lparr>open_stream = None, fired = [], gather_raises = None, session_id = ''s-1''\<rparr>))),
       clock_start = 0,
       ticks = [(1 / 10, None), (15, None), (30, None), (301 / 10, None)],
       end_stream = None, tempfile_create = None, upload_file = None,
       start_transcription_job = None, polls = [Completed (Inr ''hello world'')],
       unlink = None\<rparr>
      \<lparr>current_transcription_mode = ''streaming'', active_stream = True,
        calls = []\<rparr>
      (replicate 100 (CHR ''a''))
   = Some ([(''success'', PBool False), (''error'', PStr ''Streaming transcription timeout''),
            (''transcription'', PNone)],
       \<lparr>current_transcription_mode = ''streaming'', active_stream = False,
        calls = [ConvertToPcm, StartStreaming, Sleep, Sleep, Sleep, StopLive, EndStream]\<rparr>)"
proof -
  have d: "detect_audio_format (replicate 100 (CHR ''a'')) = ''webm''"
    by (simp add: detect_audio_format_def startswith_def slice_def eval_nat_numeral)
  show ?thesis
    by (simp add: transcribe_audio_bytes_def transcribe_audio_streaming_def Let_def d
        has_credentials_def convert_to_pcm_def start_streaming_transcription_def dget_def
        transcription_result_init_def stop_live_transcription_def log_def failure_result_def)
qed

end
